theory Spec2Isabelle
  imports Complex_Main
begin

section \<open>Values of numpy's float64\<close>

text \<open>
  The grids of \<^verbatim>\<open>snow_17.py\<close> are numpy arrays of float64. A finite value is
  modelled by the real number it denotes, with the two zeros kept apart: \<open>Fin 0\<close> is
  \<^verbatim>\<open>+0.0\<close> and \<open>NZero\<close> is \<^verbatim>\<open>-0.0\<close>. The arithmetic follows IEEE 754 as numpy
  applies it to arrays (no exception: a division by zero gives an infinity or NaN, a
  comparison with NaN is false) on zeros, infinities and NaN. On finite values it is
  exact: rounding, overflow and underflow of float64 are outside the model, and a
  decimal literal of the source denotes its decimal value.
\<close>

datatype fl = Fin real | NZero | PInf | NInf | NaN

fun val :: "fl \<Rightarrow> real" where
  "val (Fin x) = x"
| "val NZero = 0"
| "val PInf = 0"
| "val NInf = 0"
| "val NaN = 0"

fun signbit :: "fl \<Rightarrow> bool" where
  "signbit (Fin x) = (x < 0)"
| "signbit NZero = True"
| "signbit PInf = False"
| "signbit NInf = True"
| "signbit NaN = False"

fun is_zero :: "fl \<Rightarrow> bool" where
  "is_zero (Fin x) = (x = 0)"
| "is_zero NZero = True"
| "is_zero PInf = False"
| "is_zero NInf = False"
| "is_zero NaN = False"

fun is_inf :: "fl \<Rightarrow> bool" where
  "is_inf (Fin x) = False"
| "is_inf NZero = False"
| "is_inf PInf = True"
| "is_inf NInf = True"
| "is_inf NaN = False"

fun is_finite :: "fl \<Rightarrow> bool" where
  "is_finite (Fin x) = True"
| "is_finite NZero = True"
| "is_finite PInf = False"
| "is_finite NInf = False"
| "is_finite NaN = False"

definition zero_of :: "bool \<Rightarrow> fl" where
  "zero_of s = (if s then NZero else Fin 0)"

definition inf_of :: "bool \<Rightarrow> fl" where
  "inf_of s = (if s then NInf else PInf)"

fun fl_neg :: "fl \<Rightarrow> fl" where
  "fl_neg (Fin x) = (if x = 0 then NZero else Fin (- x))"
| "fl_neg NZero = Fin 0"
| "fl_neg PInf = NInf"
| "fl_neg NInf = PInf"
| "fl_neg NaN = NaN"

fun fl_abs :: "fl \<Rightarrow> fl" where
  "fl_abs (Fin x) = Fin \<bar>x\<bar>"
| "fl_abs NZero = Fin 0"
| "fl_abs PInf = PInf"
| "fl_abs NInf = PInf"
| "fl_abs NaN = NaN"

text \<open>Addition: the sum of two finite values that cancel is \<^verbatim>\<open>+0.0\<close>; only
  \<^verbatim>\<open>-0.0 + -0.0\<close> is \<^verbatim>\<open>-0.0\<close>; opposite infinities give NaN.\<close>

fun fl_add :: "fl \<Rightarrow> fl \<Rightarrow> fl" where
  "fl_add NaN b = NaN"
| "fl_add a NaN = NaN"
| "fl_add (Fin x) (Fin y) = Fin (x + y)"
| "fl_add NZero NZero = NZero"
| "fl_add NZero (Fin y) = Fin y"
| "fl_add (Fin x) NZero = Fin x"
| "fl_add PInf NInf = NaN"
| "fl_add NInf PInf = NaN"
| "fl_add PInf b = PInf"
| "fl_add a PInf = PInf"
| "fl_add NInf b = NInf"
| "fl_add a NInf = NInf"

definition fl_sub :: "fl \<Rightarrow> fl \<Rightarrow> fl" where
  "fl_sub a b = fl_add a (fl_neg b)"

text \<open>Multiplication and division: the sign of the result is the exclusive or of the
  signs; \<^verbatim>\<open>inf * 0\<close>, \<^verbatim>\<open>0 / 0\<close> and \<^verbatim>\<open>inf / inf\<close> are NaN; a non-zero value
  divided by a zero is an infinity.\<close>

fun fl_mul :: "fl \<Rightarrow> fl \<Rightarrow> fl" where
  "fl_mul NaN b = NaN"
| "fl_mul a NaN = NaN"
| "fl_mul (Fin x) (Fin y) =
     (if x * y = 0 then zero_of ((x < 0) \<noteq> (y < 0)) else Fin (x * y))"
| "fl_mul a b =
     (if (is_inf a \<and> is_zero b) \<or> (is_zero a \<and> is_inf b) then NaN
      else if is_inf a \<or> is_inf b then inf_of (signbit a \<noteq> signbit b)
      else zero_of (signbit a \<noteq> signbit b))"

fun fl_div :: "fl \<Rightarrow> fl \<Rightarrow> fl" where
  "fl_div NaN b = NaN"
| "fl_div a NaN = NaN"
| "fl_div (Fin x) (Fin y) =
     (if y = 0 then (if x = 0 then NaN else inf_of (x < 0))
      else if x = 0 then zero_of (y < 0)
      else Fin (x / y))"
| "fl_div a b =
     (if (is_inf a \<and> is_inf b) \<or> (is_zero a \<and> is_zero b) then NaN
      else if is_inf a \<or> is_zero b then inf_of (signbit a \<noteq> signbit b)
      else zero_of (signbit a \<noteq> signbit b))"

fun fl_exp :: "fl \<Rightarrow> fl" where
  "fl_exp (Fin x) = Fin (exp x)"
| "fl_exp NZero = Fin 1"
| "fl_exp PInf = PInf"
| "fl_exp NInf = Fin 0"
| "fl_exp NaN = NaN"

fun fl_log :: "fl \<Rightarrow> fl" where
  "fl_log (Fin x) = (if 0 < x then Fin (ln x) else if x = 0 then NInf else NaN)"
| "fl_log NZero = NInf"
| "fl_log PInf = PInf"
| "fl_log NInf = NaN"
| "fl_log NaN = NaN"

text \<open>Comparisons: false as soon as one side is NaN; the two zeros are equal.\<close>

fun fl_less :: "fl \<Rightarrow> fl \<Rightarrow> bool" where
  "fl_less NaN b = False"
| "fl_less a NaN = False"
| "fl_less NInf b = (b \<noteq> NInf)"
| "fl_less a NInf = False"
| "fl_less a PInf = (a \<noteq> PInf)"
| "fl_less PInf b = False"
| "fl_less a b = (val a < val b)"

definition fl_greater :: "fl \<Rightarrow> fl \<Rightarrow> bool" where
  "fl_greater a b = fl_less b a"

fun fl_eq :: "fl \<Rightarrow> fl \<Rightarrow> bool" where
  "fl_eq NaN b = False"
| "fl_eq a NaN = False"
| "fl_eq PInf b = (b = PInf)"
| "fl_eq a PInf = False"
| "fl_eq NInf b = (b = NInf)"
| "fl_eq a NInf = False"
| "fl_eq a b = (val a = val b)"

text \<open>The power \<^verbatim>\<open>a ** b\<close>, with the special cases of C's \<^verbatim>\<open>pow\<close>.\<close>

definition is_int :: "real \<Rightarrow> bool" where
  "is_int y = (of_int \<lfloor>y\<rfloor> = y)"

definition odd_int :: "real \<Rightarrow> bool" where
  "odd_int y = (is_int y \<and> odd \<lfloor>y\<rfloor>)"

definition fl_pow :: "fl \<Rightarrow> fl \<Rightarrow> fl" where
  "fl_pow a b =
     (if is_zero b then Fin 1
      else if a = Fin 1 then Fin 1
      else if a = NaN \<or> b = NaN then NaN
      else (case b of
          PInf \<Rightarrow> (if fl_less (fl_abs a) (Fin 1) then Fin 0
                    else if fl_abs a = Fin 1 then Fin 1 else PInf)
        | NInf \<Rightarrow> (if fl_less (fl_abs a) (Fin 1) then PInf
                    else if fl_abs a = Fin 1 then Fin 1 else Fin 0)
        | Fin y \<Rightarrow> (case a of
              PInf \<Rightarrow> (if 0 < y then PInf else Fin 0)
            | NInf \<Rightarrow> (if 0 < y then (if odd_int y then NInf else PInf)
                        else (if odd_int y then NZero else Fin 0))
            | NZero \<Rightarrow> (if 0 < y then (if odd_int y then NZero else Fin 0)
                         else (if odd_int y then NInf else PInf))
            | Fin x \<Rightarrow>
                (if x = 0 then (if 0 < y then Fin 0 else PInf)
                 else if 0 < x then Fin (x powr y)
                 else if is_int y
                   then Fin ((if odd_int y then - 1 else 1) * ((- x) powr y))
                 else NaN)
            | NaN \<Rightarrow> NaN)
        | NZero \<Rightarrow> Fin 1
        | NaN \<Rightarrow> NaN))"

section \<open>Grids\<close>

text \<open>
  A grid is a two-dimensional numpy array: its shape and its cells, read by row and
  column. An element-wise operation on two grids broadcasts them: along each axis the two
  lengths must be equal or one of them must be 1 (that operand is then repeated);
  otherwise numpy raises \<^verbatim>\<open>ValueError\<close>. A Python float broadcasts against a
  two-dimensional array exactly as an array of shape (1, 1) does, which is how \<open>sc\<close>
  represents it.
\<close>

record grid =
  nrows :: nat
  ncols :: nat
  cell :: "nat \<Rightarrow> nat \<Rightarrow> fl"

text \<open>
  \<open>ValueError\<close>: operands that cannot be broadcast together. \<open>IndexError\<close>: an index
  array out of the bounds of the indexed grid. \<open>AttributeError\<close>: \<^verbatim>\<open>gdal.Open\<close>
  returned \<^verbatim>\<open>None\<close> and \<^verbatim>\<open>ReadAsArray\<close> was called on it. The last two are the
  error kinds that section 7 of the specification names; no statement of
  \<^verbatim>\<open>snow_17.py\<close> raises them.
\<close>

datatype error =
  ValueError | IndexError | AttributeError | ShapeMismatchError | UnsupportedResolutionError

type_synonym result = "error + grid"

definition bdim :: "nat \<Rightarrow> nat \<Rightarrow> nat option" where
  "bdim m n = (if m = n then Some m else if m = 1 then Some n
               else if n = 1 then Some m else None)"

definition bidx :: "nat \<Rightarrow> nat \<Rightarrow> nat" where
  "bidx n i = (if n = 1 then 0 else i)"

definition broadcast2 :: "(fl \<Rightarrow> fl \<Rightarrow> fl) \<Rightarrow> grid \<Rightarrow> grid \<Rightarrow> result" where
  "broadcast2 f a b =
     (case bdim (nrows a) (nrows b) of
        None \<Rightarrow> Inl ValueError
      | Some r \<Rightarrow>
         (case bdim (ncols a) (ncols b) of
            None \<Rightarrow> Inl ValueError
          | Some c \<Rightarrow>
              Inr \<lparr>nrows = r, ncols = c,
                   cell = (\<lambda>i j. f (cell a (bidx (nrows a) i) (bidx (ncols a) j))
                                    (cell b (bidx (nrows b) i) (bidx (ncols b) j)))\<rparr>))"

definition gmap :: "(fl \<Rightarrow> fl) \<Rightarrow> grid \<Rightarrow> grid" where
  "gmap f a = \<lparr>nrows = nrows a, ncols = ncols a, cell = (\<lambda>i j. f (cell a i j))\<rparr>"

definition rbind :: "error + 'a \<Rightarrow> ('a \<Rightarrow> error + 'b) \<Rightarrow> error + 'b" where
  "rbind r k = (case r of Inl e \<Rightarrow> Inl e | Inr x \<Rightarrow> k x)"

definition lift2 :: "(fl \<Rightarrow> fl \<Rightarrow> fl) \<Rightarrow> result \<Rightarrow> result \<Rightarrow> result" where
  "lift2 f ra rb = rbind ra (\<lambda>a. rbind rb (\<lambda>b. broadcast2 f a b))"

definition lift1 :: "(fl \<Rightarrow> fl) \<Rightarrow> result \<Rightarrow> result" where
  "lift1 f ra = rbind ra (\<lambda>a. Inr (gmap f a))"

definition arr :: "grid \<Rightarrow> result" where
  "arr g = Inr g"

definition sc :: "fl \<Rightarrow> result" where
  "sc x = Inr \<lparr>nrows = 1, ncols = 1, cell = (\<lambda>i j. x)\<rparr>"

definition num :: "real \<Rightarrow> result" where
  "num x = sc (Fin x)"

definition gadd :: "result \<Rightarrow> result \<Rightarrow> result" where
  "gadd = lift2 fl_add"

definition gsub :: "result \<Rightarrow> result \<Rightarrow> result" where
  "gsub = lift2 fl_sub"

definition gmul :: "result \<Rightarrow> result \<Rightarrow> result" where
  "gmul = lift2 fl_mul"

definition gdiv :: "result \<Rightarrow> result \<Rightarrow> result" where
  "gdiv = lift2 fl_div"

definition gpow :: "result \<Rightarrow> result \<Rightarrow> result" where
  "gpow = lift2 fl_pow"

definition gexp :: "result \<Rightarrow> result" where
  "gexp = lift1 fl_exp"

definition glog :: "result \<Rightarrow> result" where
  "glog = lift1 fl_log"

definition gabs :: "result \<Rightarrow> result" where
  "gabs = lift1 fl_abs"

subsection \<open>Index arrays\<close>

text \<open>
  \<^verbatim>\<open>np.where(cond)\<close> lists the positions of the cells that satisfy the condition,
  in row-major order. \<^verbatim>\<open>g[idx]\<close> reads the cells at these positions into a
  one-dimensional array (and raises \<^verbatim>\<open>IndexError\<close> when a position is outside
  \<open>g\<close>); \<^verbatim>\<open>z[idx] = vals\<close> stores the values at these positions, one after the
  other. One-dimensional arrays are lists.
\<close>

definition gwhere :: "(fl \<Rightarrow> bool) \<Rightarrow> grid \<Rightarrow> (nat \<times> nat) list" where
  "gwhere P g =
     concat (map (\<lambda>i. map (\<lambda>j. (i, j)) (filter (\<lambda>j. P (cell g i j)) [0..<ncols g]))
                 [0..<nrows g])"

definition in_bounds :: "grid \<Rightarrow> (nat \<times> nat) list \<Rightarrow> bool" where
  "in_bounds g idx = list_all (\<lambda>p. fst p < nrows g \<and> snd p < ncols g) idx"

definition gtake :: "grid \<Rightarrow> (nat \<times> nat) list \<Rightarrow> error + fl list" where
  "gtake g idx =
     (if in_bounds g idx then Inr (map (\<lambda>p. cell g (fst p) (snd p)) idx)
      else Inl IndexError)"

definition store :: "(nat \<times> nat) \<times> fl \<Rightarrow> (nat \<Rightarrow> nat \<Rightarrow> fl) \<Rightarrow> (nat \<Rightarrow> nat \<Rightarrow> fl)" where
  "store pv c = c (fst (fst pv) := (c (fst (fst pv))) (snd (fst pv) := snd pv))"

definition gput :: "grid \<Rightarrow> (nat \<times> nat) list \<Rightarrow> fl list \<Rightarrow> grid" where
  "gput z idx vals = z \<lparr>cell := fold store (zip idx vals) (cell z)\<rparr>"

definition zeros :: "nat \<Rightarrow> nat \<Rightarrow> grid" where
  "zeros r c = \<lparr>nrows = r, ncols = c, cell = (\<lambda>i j. Fin 0)\<rparr>"

definition shape :: "grid \<Rightarrow> nat \<times> nat" where
  "shape g = (nrows g, ncols g)"

text \<open>A grid with the same value in every cell (\<^verbatim>\<open>np.full\<close>).\<close>

definition uniform :: "nat \<Rightarrow> nat \<Rightarrow> fl \<Rightarrow> grid" where
  "uniform r c x = \<lparr>nrows = r, ncols = c, cell = (\<lambda>i j. x)\<rparr>"

section \<open>The class \<^verbatim>\<open>snow17\<close>\<close>

subsection \<open>Class attributes\<close>

definition Z_A :: fl where "Z_A = Fin 1000"
definition Z_0 :: fl where "Z_0 = Fin 0.01"
definition L_S :: fl where "L_S = Fin 677"
definition RHO_W :: fl where "RHO_W = Fin 1"
definition R_SPECIFIC :: fl where "R_SPECIFIC = Fin 287.058"
definition K :: fl where "K = Fin 0.40"
definition PA_2_MB :: fl where "PA_2_MB = Fin 0.01"

text \<open>
  The two standard-atmosphere grids \<^verbatim>\<open>P_A_30\<close> and \<^verbatim>\<open>P_A_500\<close> are class
  attributes computed once from the elevation rasters, and the canopy density is read
  from the raster \<^verbatim>\<open>vegetation/amr_forest_density_<res>m.tif\<close>. The rasters are not
  part of the repository: the two grids, and what \<^verbatim>\<open>gdal.Open(...).ReadAsArray()\<close>
  gives for the file of each resolution (\<open>None\<close> when the file cannot be opened), are
  parameters of the model.
\<close>

record statics =
  P_A_30 :: grid
  P_A_500 :: grid
  amr_forest_density :: "int \<Rightarrow> grid option"

subsection \<open>The standalone function\<close>

definition calc_rh :: "grid \<Rightarrow> grid \<Rightarrow> grid \<Rightarrow> result" where
  "calc_rh air_tmp pres spfh =
     gmul (gmul (gmul (num 0.263) (arr pres)) (arr spfh))
          (gdiv (num 1)
                (gexp (gdiv (gmul (num 17.67) (arr air_tmp))
                            (gadd (arr air_tmp) (num 243.5)))))"

subsection \<open>The methods\<close>

text \<open>Each method is a function of the attributes it reads; its value is the attribute
  it assigns, or the exception it raises.\<close>

definition calc_relative_humidity :: "grid \<Rightarrow> grid \<Rightarrow> grid \<Rightarrow> result" where
  "calc_relative_humidity pres spfh air_tmp =
     gmul (gmul (gmul (num 0.263) (arr pres)) (arr spfh))
          (gdiv (num 1)
                (gexp (gdiv (gmul (num 17.67) (arr air_tmp))
                            (gadd (arr air_tmp) (num 243.5)))))"

definition calc_air_saturate_vapor_pressure :: "grid \<Rightarrow> result" where
  "calc_air_saturate_vapor_pressure air_tmp =
     gmul (num 611.2)
          (gexp (gdiv (gmul (num 17.67) (arr air_tmp)) (gadd (num 243.5) (arr air_tmp))))"

definition calc_snow_saturate_vapor_pressure :: "grid \<Rightarrow> result" where
  "calc_snow_saturate_vapor_pressure snow_tmp =
     gmul (num 611.2)
          (gexp (gdiv (gmul (num 17.67) (arr snow_tmp)) (gadd (num 243.5) (arr snow_tmp))))"

definition calc_air_vapor_pressure :: "grid \<Rightarrow> grid \<Rightarrow> result" where
  "calc_air_vapor_pressure rh e_sat_air =
     gmul (gdiv (arr rh) (num 100)) (arr e_sat_air)"

definition calc_air_density :: "grid \<Rightarrow> grid \<Rightarrow> result" where
  "calc_air_density pres air_tmp =
     gdiv (gdiv (arr pres) (gmul (sc R_SPECIFIC) (gadd (arr air_tmp) (num 273.16))))
          (num 1000)"

definition calc_b :: "statics \<Rightarrow> int \<Rightarrow> grid \<Rightarrow> result" where
  "calc_b st res rho_a =
     (if res = 500 then
        gmul (gmul (gdiv (gmul (num 0.622) (arr rho_a)) (gmul (arr (P_A_500 st)) (sc RHO_W)))
                   (gpow (num 10) (num 6)))
             (gdiv (gpow (sc K) (num 2)) (gpow (glog (gdiv (sc Z_A) (sc Z_0))) (num 2)))
      else
        gmul (gmul (gdiv (gmul (num 0.622) (arr rho_a)) (gmul (arr (P_A_30 st)) (sc RHO_W)))
                   (gpow (num 10) (num 6)))
             (gdiv (gpow (sc K) (num 2)) (gpow (glog (gdiv (sc Z_A) (sc Z_0))) (num 2))))"

definition calc_FU :: "grid \<Rightarrow> grid \<Rightarrow> result" where
  "calc_FU b wind = gmul (gmul (arr b) (arr wind)) (num 3.6)"

definition calc_exchange_coefficient :: "grid \<Rightarrow> result" where
  "calc_exchange_coefficient wind =
     gdiv (gmul (gpow (sc K) (num 2)) (arr wind))
          (gpow (glog (gdiv (sc Z_A) (sc Z_0))) (num 2))"

text \<open>The two locals of \<^verbatim>\<open>calc_unstable_correction\<close>, and the right-hand sides of its
  two masked assignments on the selected cells.\<close>

definition calc_gamma :: "grid \<Rightarrow> grid \<Rightarrow> result" where
  "calc_gamma d_h_e wind =
     gmul (gdiv (gmul (gmul (num 5.3) (num 9.4)) (arr d_h_e)) (arr wind))
          (gpow (gdiv (sc Z_A) (sc Z_0)) (num 0.5))"

definition calc_R_i :: "grid \<Rightarrow> grid \<Rightarrow> result" where
  "calc_R_i wind air_tmp =
     gdiv (gmul (gdiv (gmul (gmul (num 2) (num 10)) (sc Z_A)) (num 100)) (arr air_tmp))
          (gmul (arr air_tmp) (gpow (gmul (num 27.78) (arr wind)) (num 2)))"

definition stable :: "fl \<Rightarrow> fl" where
  "stable r = fl_div (Fin 1) (fl_pow (fl_add (Fin 1) (fl_mul (Fin 4.7) r)) (Fin 2))"

definition unstable :: "fl \<Rightarrow> fl \<Rightarrow> fl" where
  "unstable r g =
     fl_sub (Fin 1)
       (fl_div (fl_mul (Fin 9.4) r)
               (fl_add (Fin 1) (fl_mul g (fl_pow (fl_abs r) (Fin 0.5)))))"

text \<open>The body of \<^verbatim>\<open>calc_unstable_correction\<close> after its two locals: \<^verbatim>\<open>zeta\<close> starts
  as zeros of the shape of \<^verbatim>\<open>R_i\<close> and receives the two masked assignments.\<close>

definition assign_zeta :: "grid \<Rightarrow> grid \<Rightarrow> result" where
  "assign_zeta gamma R_i =
     rbind (gtake R_i (gwhere (\<lambda>x. fl_greater x (Fin 0)) R_i)) (\<lambda>v.
       let zeta = gput (zeros (nrows R_i) (ncols R_i))
                       (gwhere (\<lambda>x. fl_greater x (Fin 0)) R_i) (map stable v)
       in
     rbind (gtake R_i (gwhere (\<lambda>x. fl_less x (Fin 0)) R_i)) (\<lambda>w.
     rbind (gtake gamma (gwhere (\<lambda>x. fl_less x (Fin 0)) R_i)) (\<lambda>g.
       Inr (gput zeta (gwhere (\<lambda>x. fl_less x (Fin 0)) R_i) (map2 unstable w g)))))"

definition calc_unstable_correction :: "grid \<Rightarrow> grid \<Rightarrow> grid \<Rightarrow> result" where
  "calc_unstable_correction d_h_e wind air_tmp =
     rbind (calc_gamma d_h_e wind) (\<lambda>gamma.
     rbind (calc_R_i wind air_tmp) (\<lambda>R_i. assign_zeta gamma R_i))"

definition calc_atm_emissivity :: "grid \<Rightarrow> grid \<Rightarrow> result" where
  "calc_atm_emissivity dlw air_tmp =
     gdiv (arr dlw)
          (gmul (gmul (gpow (gadd (arr air_tmp) (num 273.16)) (num 4)) (num 5.67))
                (gpow (num 10) (num (- 8))))"

definition calc_weighted_emissivity :: "grid \<Rightarrow> grid \<Rightarrow> result" where
  "calc_weighted_emissivity F_c atm_emissivity =
     gadd (gmul (gsub (num 1) (arr F_c)) (arr atm_emissivity)) (gmul (arr F_c) (num 0.98))"

definition calc_LH :: "grid \<Rightarrow> grid \<Rightarrow> grid \<Rightarrow> grid \<Rightarrow> result" where
  "calc_LH zeta fu e_a e_sat_snow =
     gmul (gmul (gmul (gmul (gdiv (gmul (gmul (arr zeta) (sc L_S)) (sc RHO_W)) (num 10))
                            (arr fu))
                      (gsub (arr e_a) (arr e_sat_snow)))
                (sc PA_2_MB))
          (num 11.62)"

definition calc_SH :: "statics \<Rightarrow> int \<Rightarrow> grid \<Rightarrow> grid \<Rightarrow> grid \<Rightarrow> grid \<Rightarrow> result" where
  "calc_SH st res zeta fu air_tmp snow_tmp =
     (if res = 500 then
        gmul (gmul (gmul (gdiv (gmul (gmul (gdiv (gmul (arr zeta) (sc RHO_W)) (num 10))
                                           (num 0.24))
                                     (arr (P_A_500 st)))
                               (num 0.622))
                         (arr fu))
                   (gsub (arr air_tmp) (arr snow_tmp)))
             (num 11.62)
      else
        gmul (gmul (gmul (gdiv (gmul (gmul (gdiv (gmul (arr zeta) (sc RHO_W)) (num 10))
                                           (num 0.24))
                                     (arr (P_A_30 st)))
                               (num 0.622))
                         (arr fu))
                   (gsub (arr air_tmp) (arr snow_tmp)))
             (num 11.62))"

definition calc_DLW :: "grid \<Rightarrow> grid \<Rightarrow> grid \<Rightarrow> result" where
  "calc_DLW dlw weighted_emissivity atm_emissivity =
     gdiv (gmul (arr dlw) (arr weighted_emissivity)) (arr atm_emissivity)"

definition calc_ULW :: "grid \<Rightarrow> result" where
  "calc_ULW snow_tmp =
     gmul (gmul (gmul (num 0.98) (num 5.67)) (gpow (num 10) (num (- 8))))
          (gpow (gadd (arr snow_tmp) (num 273.16)) (num 4))"

subsection \<open>The constructor\<close>

record snow17 =
  air_tmp :: grid
  snow_tmp :: grid
  pres :: grid
  spfh :: grid
  wind :: grid
  dlw :: grid
  F_c :: grid
  res :: int
  rh :: grid
  e_sat_air :: grid
  e_sat_snow :: grid
  e_a :: grid
  rho_a :: grid
  b :: grid
  fu :: grid
  d_h_e :: grid
  zeta :: grid
  atm_emissivity :: grid
  weighted_emissivity :: grid
  LH :: grid
  SH :: grid
  CDLW :: grid
  ULW :: grid

text \<open>The canopy fraction: the raster of the resolution, divided by 100.\<close>

definition load_F_c :: "statics \<Rightarrow> int \<Rightarrow> result" where
  "load_F_c st r =
     (case amr_forest_density st r of
        None \<Rightarrow> Inl AttributeError
      | Some raster \<Rightarrow> gdiv (arr raster) (num 100))"

definition init :: "statics \<Rightarrow> grid \<Rightarrow> grid \<Rightarrow> grid \<Rightarrow> grid \<Rightarrow> grid \<Rightarrow> grid \<Rightarrow> int
    \<Rightarrow> error + snow17" where
  "init st air_tmp' snow_tmp' pres' spfh' wind' dlw' res' =
     rbind (load_F_c st res') (\<lambda>F_c'.
     rbind (calc_relative_humidity pres' spfh' air_tmp') (\<lambda>rh'.
     rbind (calc_air_saturate_vapor_pressure air_tmp') (\<lambda>e_sat_air'.
     rbind (calc_snow_saturate_vapor_pressure snow_tmp') (\<lambda>e_sat_snow'.
     rbind (calc_air_vapor_pressure rh' e_sat_air') (\<lambda>e_a'.
     rbind (calc_air_density pres' air_tmp') (\<lambda>rho_a'.
     rbind (calc_b st res' rho_a') (\<lambda>b'.
     rbind (calc_FU b' wind') (\<lambda>fu'.
     rbind (calc_exchange_coefficient wind') (\<lambda>d_h_e'.
     rbind (calc_unstable_correction d_h_e' wind' air_tmp') (\<lambda>zeta'.
     rbind (calc_atm_emissivity dlw' air_tmp') (\<lambda>atm_emissivity'.
     rbind (calc_weighted_emissivity F_c' atm_emissivity') (\<lambda>weighted_emissivity'.
     rbind (calc_LH zeta' fu' e_a' e_sat_snow') (\<lambda>LH'.
     rbind (calc_SH st res' zeta' fu' air_tmp' snow_tmp') (\<lambda>SH'.
     rbind (calc_DLW dlw' weighted_emissivity' atm_emissivity') (\<lambda>CDLW'.
     rbind (calc_ULW snow_tmp') (\<lambda>ULW'.
       Inr \<lparr>air_tmp = air_tmp', snow_tmp = snow_tmp', pres = pres', spfh = spfh',
            wind = wind', dlw = dlw', F_c = F_c', res = res', rh = rh',
            e_sat_air = e_sat_air', e_sat_snow = e_sat_snow', e_a = e_a',
            rho_a = rho_a', b = b', fu = fu', d_h_e = d_h_e', zeta = zeta',
            atm_emissivity = atm_emissivity', weighted_emissivity = weighted_emissivity',
            LH = LH', SH = SH', CDLW = CDLW', ULW = ULW'\<rparr>))))))))))))))))"

section \<open>Auxiliary notions\<close>

text \<open>
  The notions below serve the proofs. \<open>cell_at\<close> reads a cell of a result the way
  broadcasting reads it; \<open>fits\<close> says that a result is a grid that broadcasts to a given
  shape, \<open>rowx\<close> and \<open>colx\<close> that it has exactly that many rows and columns, and
  \<open>cells\<close> that it is a grid of a given shape with given cells. \<open>P_A_of\<close> is the
  standard-atmosphere grid that \<^verbatim>\<open>calc_b\<close> and \<^verbatim>\<open>calc_SH\<close> select, and the
  functions named \<open>..._cell\<close> are the scalar forms of the formulas of the methods: the
  lemmas of the next sections prove that each method computes its scalar form in every
  cell. \<open>example_statics\<close> is a site of one cell, with a canopy raster for the
  resolutions 500, 30 and 7 only; \<open>example_R_i\<close> is a grid with a positive, a negative
  and a zero cell. \<open>broadcasts_to\<close> says that a grid can be broadcast to a shape.
\<close>

definition cell_at :: "result \<Rightarrow> nat \<Rightarrow> nat \<Rightarrow> fl" where
  "cell_at r i j = (case r of Inl e \<Rightarrow> NaN | Inr g \<Rightarrow> cell g (bidx (nrows g) i) (bidx (ncols g) j))"

definition fits :: "result \<Rightarrow> nat \<Rightarrow> nat \<Rightarrow> bool" where
  "fits r n m = (case r of Inl e \<Rightarrow> False | Inr g \<Rightarrow> (nrows g = n \<or> nrows g = 1) \<and> (ncols g = m \<or> ncols g = 1))"

definition rowx :: "result \<Rightarrow> nat \<Rightarrow> bool" where
  "rowx r n = (case r of Inl e \<Rightarrow> False | Inr g \<Rightarrow> nrows g = n)"

definition colx :: "result \<Rightarrow> nat \<Rightarrow> bool" where
  "colx r m = (case r of Inl e \<Rightarrow> False | Inr g \<Rightarrow> ncols g = m)"

definition P_A_of :: "statics \<Rightarrow> int \<Rightarrow> grid" where
  "P_A_of st r = (if r = 500 then P_A_500 st else P_A_30 st)"

definition wind_scale :: fl where
  "wind_scale = fl_div (fl_pow K (Fin 2)) (fl_pow (fl_log (fl_div Z_A Z_0)) (Fin 2))"

definition zeta_cell :: "fl \<Rightarrow> fl \<Rightarrow> fl" where
  "zeta_cell r g = (if fl_greater r (Fin 0) then stable r
                    else if fl_less r (Fin 0) then unstable r g else Fin 0)"

definition F_c_cell :: "fl \<Rightarrow> fl" where
  "F_c_cell g = fl_div g (Fin 100)"

definition rh_cell :: "fl \<Rightarrow> fl \<Rightarrow> fl \<Rightarrow> fl" where
  "rh_cell p q a =
     fl_mul (fl_mul (fl_mul (Fin 0.263) p) q)
       (fl_div (Fin 1) (fl_exp (fl_div (fl_mul (Fin 17.67) a) (fl_add a (Fin 243.5)))))"

definition e_sat_cell :: "fl \<Rightarrow> fl" where
  "e_sat_cell t = fl_mul (Fin 611.2) (fl_exp (fl_div (fl_mul (Fin 17.67) t) (fl_add (Fin 243.5) t)))"

definition e_a_cell :: "fl \<Rightarrow> fl \<Rightarrow> fl" where
  "e_a_cell h e = fl_mul (fl_div h (Fin 100)) e"

definition rho_a_cell :: "fl \<Rightarrow> fl \<Rightarrow> fl" where
  "rho_a_cell p a = fl_div (fl_div p (fl_mul R_SPECIFIC (fl_add a (Fin 273.16)))) (Fin 1000)"

definition b_cell :: "fl \<Rightarrow> fl \<Rightarrow> fl" where
  "b_cell pa d =
     fl_mul (fl_mul (fl_div (fl_mul (Fin 0.622) d) (fl_mul pa RHO_W)) (fl_pow (Fin 10) (Fin 6)))
            wind_scale"

definition fu_cell :: "fl \<Rightarrow> fl \<Rightarrow> fl" where
  "fu_cell c w = fl_mul (fl_mul c w) (Fin 3.6)"

definition d_h_e_cell :: "fl \<Rightarrow> fl" where
  "d_h_e_cell w = fl_div (fl_mul (fl_pow K (Fin 2)) w) (fl_pow (fl_log (fl_div Z_A Z_0)) (Fin 2))"

definition gamma_cell :: "fl \<Rightarrow> fl \<Rightarrow> fl" where
  "gamma_cell d w =
     fl_mul (fl_div (fl_mul (fl_mul (Fin 5.3) (Fin 9.4)) d) w) (fl_pow (fl_div Z_A Z_0) (Fin 0.5))"

definition R_i_cell :: "fl \<Rightarrow> fl \<Rightarrow> fl" where
  "R_i_cell w a =
     fl_div (fl_mul (fl_div (fl_mul (fl_mul (Fin 2) (Fin 10)) Z_A) (Fin 100)) a)
            (fl_mul a (fl_pow (fl_mul (Fin 27.78) w) (Fin 2)))"

definition atm_cell :: "fl \<Rightarrow> fl \<Rightarrow> fl" where
  "atm_cell d a =
     fl_div d (fl_mul (fl_mul (fl_pow (fl_add a (Fin 273.16)) (Fin 4)) (Fin 5.67))
                      (fl_pow (Fin 10) (Fin (- 8))))"

definition weighted_cell :: "fl \<Rightarrow> fl \<Rightarrow> fl" where
  "weighted_cell c e = fl_add (fl_mul (fl_sub (Fin 1) c) e) (fl_mul c (Fin 0.98))"

definition LH_cell :: "fl \<Rightarrow> fl \<Rightarrow> fl \<Rightarrow> fl \<Rightarrow> fl" where
  "LH_cell z f e s =
     fl_mul (fl_mul (fl_mul (fl_mul (fl_div (fl_mul (fl_mul z L_S) RHO_W) (Fin 10)) f)
                            (fl_sub e s))
                    PA_2_MB)
            (Fin 11.62)"

definition SH_cell :: "fl \<Rightarrow> fl \<Rightarrow> fl \<Rightarrow> fl \<Rightarrow> fl \<Rightarrow> fl" where
  "SH_cell pa z f a s =
     fl_mul (fl_mul (fl_mul (fl_div (fl_mul (fl_mul (fl_div (fl_mul z RHO_W) (Fin 10)) (Fin 0.24)) pa)
                                    (Fin 0.622))
                            f)
                    (fl_sub a s))
            (Fin 11.62)"

definition CDLW_cell :: "fl \<Rightarrow> fl \<Rightarrow> fl \<Rightarrow> fl" where
  "CDLW_cell d w e = fl_div (fl_mul d w) e"

definition ULW_cell :: "fl \<Rightarrow> fl" where
  "ULW_cell s =
     fl_mul (fl_mul (fl_mul (Fin 0.98) (Fin 5.67)) (fl_pow (Fin 10) (Fin (- 8))))
            (fl_pow (fl_add s (Fin 273.16)) (Fin 4))"

definition cells :: "result \<Rightarrow> nat \<Rightarrow> nat \<Rightarrow> (nat \<Rightarrow> nat \<Rightarrow> fl) \<Rightarrow> bool" where
  "cells r n m F = (\<exists>g. r = Inr g \<and> shape g = (n, m) \<and> (\<forall>i<n. \<forall>j<m. cell g i j = F i j))"

definition example_statics :: statics where
  "example_statics =
     \<lparr>P_A_30 = uniform 1 1 (Fin 800), P_A_500 = uniform 1 1 (Fin 900),
      amr_forest_density =
        (\<lambda>r. if r = 500 \<or> r = 30 \<or> r = 7 then Some (uniform 1 1 (Fin 0)) else None)\<rparr>"

definition example_R_i :: grid where
  "example_R_i =
     \<lparr>nrows = 1, ncols = 3,
      cell = (\<lambda>i j. if j = 0 then Fin 1 else if j = 1 then Fin (- 1) else Fin 0)\<rparr>"

definition broadcasts_to :: "grid \<Rightarrow> nat \<Rightarrow> nat \<Rightarrow> bool" where
  "broadcasts_to g n m = ((nrows g = n \<or> nrows g = 1) \<and> (ncols g = m \<or> ncols g = 1))"

section \<open>Broadcasting\<close>

lemma rbind_simps [simp]: "rbind (Inl e) k = Inl e" "rbind (Inr x) k = k x"
  by (simp_all add: rbind_def)

lemma rbind_eq_Inr: "rbind r k = Inr y \<longleftrightarrow> (\<exists>x. r = Inr x \<and> k x = Inr y)"
  by (cases r) simp_all

lemma fits_sc [simp]: "fits (sc x) n m" "fits (num y) n m"
  by (simp_all add: fits_def sc_def num_def)

lemma at_sc [simp]: "cell_at (sc x) i j = x" "cell_at (num y) i j = Fin y"
  by (simp_all add: cell_at_def sc_def num_def)

lemma rowx_arr [simp]: "rowx (arr g) n \<longleftrightarrow> nrows g = n" "colx (arr g) m \<longleftrightarrow> ncols g = m"
  by (simp_all add: rowx_def colx_def arr_def)

lemma rowx_sc [simp]: "rowx (sc x) n \<longleftrightarrow> n = 1" "colx (sc x) m \<longleftrightarrow> m = 1"
  "rowx (num y) n \<longleftrightarrow> n = 1" "colx (num y) m \<longleftrightarrow> m = 1"
  by (auto simp: rowx_def colx_def sc_def num_def)

lemma bidx_lt: "i < n \<Longrightarrow> bidx n i = i"
  by (auto simp: bidx_def)

lemma at_arr: "i < nrows g \<Longrightarrow> j < ncols g \<Longrightarrow> cell_at (arr g) i j = cell g i j"
  by (simp add: cell_at_def arr_def bidx_lt)

lemma bdim_fits:
  assumes "n1 = n \<or> n1 = 1" "n2 = n \<or> n2 = 1"
  shows "\<exists>r. bdim n1 n2 = Some r \<and> (r = n \<or> r = 1) \<and> (r = n \<longleftrightarrow> n1 = n \<or> n2 = n)
     \<and> bidx n1 (bidx r i) = bidx n1 i \<and> bidx n2 (bidx r i) = bidx n2 i"
  using assms by (auto simp: bdim_def bidx_def)

lemma broadcast2_fits:
  assumes "nrows x = n \<or> nrows x = 1" "ncols x = m \<or> ncols x = 1"
    "nrows y = n \<or> nrows y = 1" "ncols y = m \<or> ncols y = 1"
  shows "\<exists>g. broadcast2 f x y = Inr g \<and> (nrows g = n \<or> nrows g = 1) \<and> (ncols g = m \<or> ncols g = 1)
     \<and> (nrows g = n \<longleftrightarrow> nrows x = n \<or> nrows y = n)
     \<and> (ncols g = m \<longleftrightarrow> ncols x = m \<or> ncols y = m)
     \<and> cell g (bidx (nrows g) i) (bidx (ncols g) j)
        = f (cell x (bidx (nrows x) i) (bidx (ncols x) j)) (cell y (bidx (nrows y) i) (bidx (ncols y) j))"
proof -
  from bdim_fits[OF assms(1) assms(3), of i] obtain r where
    r: "bdim (nrows x) (nrows y) = Some r" "r = n \<or> r = 1" "r = n \<longleftrightarrow> nrows x = n \<or> nrows y = n"
      "bidx (nrows x) (bidx r i) = bidx (nrows x) i" "bidx (nrows y) (bidx r i) = bidx (nrows y) i"
    by blast
  from bdim_fits[OF assms(2) assms(4), of j] obtain c where
    c: "bdim (ncols x) (ncols y) = Some c" "c = m \<or> c = 1" "c = m \<longleftrightarrow> ncols x = m \<or> ncols y = m"
      "bidx (ncols x) (bidx c j) = bidx (ncols x) j" "bidx (ncols y) (bidx c j) = bidx (ncols y) j"
    by blast
  show ?thesis
    using r c by (simp add: broadcast2_def)
qed

lemma lift2_fits:
  assumes "fits x n m" "fits y n m"
  shows "fits (lift2 f x y) n m" and "cell_at (lift2 f x y) i j = f (cell_at x i j) (cell_at y i j)"
proof -
  from assms obtain gx gy where g: "x = Inr gx" "y = Inr gy"
    "nrows gx = n \<or> nrows gx = 1" "ncols gx = m \<or> ncols gx = 1"
    "nrows gy = n \<or> nrows gy = 1" "ncols gy = m \<or> ncols gy = 1"
    by (auto simp: fits_def split: sum.splits)
  from broadcast2_fits[OF g(3-6), of f i j] obtain h where
    h: "broadcast2 f gx gy = Inr h" "nrows h = n \<or> nrows h = 1" "ncols h = m \<or> ncols h = 1"
      "cell h (bidx (nrows h) i) (bidx (ncols h) j)
        = f (cell gx (bidx (nrows gx) i) (bidx (ncols gx) j)) (cell gy (bidx (nrows gy) i) (bidx (ncols gy) j))"
    by blast
  show "fits (lift2 f x y) n m" using g(1,2) h(1-3) by (simp add: lift2_def fits_def)
  show "cell_at (lift2 f x y) i j = f (cell_at x i j) (cell_at y i j)"
    using g(1,2) h(1,4) by (simp add: lift2_def cell_at_def)
qed

lemma lift2_rowx:
  assumes "fits x n m" "fits y n m"
  shows "rowx (lift2 f x y) n \<longleftrightarrow> rowx x n \<or> rowx y n"
    and "colx (lift2 f x y) m \<longleftrightarrow> colx x m \<or> colx y m"
proof -
  from assms obtain gx gy where g: "x = Inr gx" "y = Inr gy"
    "nrows gx = n \<or> nrows gx = 1" "ncols gx = m \<or> ncols gx = 1"
    "nrows gy = n \<or> nrows gy = 1" "ncols gy = m \<or> ncols gy = 1"
    by (auto simp: fits_def split: sum.splits)
  from broadcast2_fits[OF g(3-6), of f 0 0] obtain h where
    h: "broadcast2 f gx gy = Inr h" "nrows h = n \<or> nrows h = 1" "ncols h = m \<or> ncols h = 1"
       "nrows h = n \<longleftrightarrow> nrows gx = n \<or> nrows gy = n" "ncols h = m \<longleftrightarrow> ncols gx = m \<or> ncols gy = m"
    by blast
  show "rowx (lift2 f x y) n \<longleftrightarrow> rowx x n \<or> rowx y n"
    using g(1,2) h(1,4) by (simp add: lift2_def rowx_def)
  show "colx (lift2 f x y) m \<longleftrightarrow> colx x m \<or> colx y m"
    using g(1,2) h(1,5) by (simp add: lift2_def colx_def)
qed

lemma lift1_fits:
  assumes "fits x n m"
  shows "fits (lift1 f x) n m" and "cell_at (lift1 f x) i j = f (cell_at x i j)"
  using assms
  by (auto simp: fits_def cell_at_def lift1_def gmap_def split: sum.splits)

lemma lift2_rowxI:
  assumes "fits x n m" "fits y n m"
  shows "rowx x n \<or> rowx y n \<Longrightarrow> rowx (lift2 f x y) n"
    and "colx x m \<or> colx y m \<Longrightarrow> colx (lift2 f x y) m"
  using lift2_rowx[OF assms] by simp_all

lemma lift1_rowx: "rowx (lift1 f x) n \<longleftrightarrow> rowx x n" "colx (lift1 f x) m \<longleftrightarrow> colx x m"
  by (auto simp: rowx_def colx_def lift1_def gmap_def split: sum.splits)

lemma exact_cell:
  assumes "rowx r n" "colx r m"
  shows "\<exists>g. r = Inr g \<and> nrows g = n \<and> ncols g = m \<and> (\<forall>i<n. \<forall>j<m. cell g i j = cell_at r i j)"
  using assms by (auto simp: rowx_def colx_def cell_at_def bidx_lt split: sum.splits)

lemma fits_arr [simp]: "fits (arr g) n m \<longleftrightarrow> (nrows g = n \<or> nrows g = 1) \<and> (ncols g = m \<or> ncols g = 1)"
  by (simp add: fits_def arr_def)

lemmas gops = gadd_def gsub_def gmul_def gdiv_def gpow_def gexp_def glog_def gabs_def

section \<open>The methods under broadcasting\<close>

lemma calc_relative_humidity_fits:
  assumes "fits (arr p) n m" "fits (arr q) n m" "fits (arr a) n m"
  shows "fits (calc_relative_humidity p q a) n m"
    and "cell_at (calc_relative_humidity p q a) i j =
      fl_mul (fl_mul (fl_mul (Fin 0.263) (cell_at (arr p) i j)) (cell_at (arr q) i j))
        (fl_div (Fin 1) (fl_exp (fl_div (fl_mul (Fin 17.67) (cell_at (arr a) i j))
            (fl_add (cell_at (arr a) i j) (Fin 243.5)))))"
    and "nrows p = n \<and> nrows q = n \<and> nrows a = n \<Longrightarrow> rowx (calc_relative_humidity p q a) n"
    and "ncols p = m \<and> ncols q = m \<and> ncols a = m \<Longrightarrow> colx (calc_relative_humidity p q a) m"
  using assms
  by (simp_all add: calc_relative_humidity_def gops lift2_fits[where n=n and m=m] lift1_fits[where n=n and m=m] lift2_rowxI[where n=n and m=m] lift1_rowx
      del: fits_arr)

lemma calc_air_saturate_vapor_pressure_fits:
  assumes "fits (arr a) n m"
  shows "fits (calc_air_saturate_vapor_pressure a) n m"
    and "cell_at (calc_air_saturate_vapor_pressure a) i j =
      fl_mul (Fin 611.2) (fl_exp (fl_div (fl_mul (Fin 17.67) (cell_at (arr a) i j))
            (fl_add (Fin 243.5) (cell_at (arr a) i j))))"
    and "nrows a = n \<Longrightarrow> rowx (calc_air_saturate_vapor_pressure a) n"
    and "ncols a = m \<Longrightarrow> colx (calc_air_saturate_vapor_pressure a) m"
  using assms
  by (simp_all add: calc_air_saturate_vapor_pressure_def gops lift2_fits[where n=n and m=m] lift1_fits[where n=n and m=m] lift2_rowxI[where n=n and m=m] lift1_rowx
      del: fits_arr)

lemma calc_snow_saturate_vapor_pressure_fits:
  assumes "fits (arr a) n m"
  shows "fits (calc_snow_saturate_vapor_pressure a) n m"
    and "cell_at (calc_snow_saturate_vapor_pressure a) i j =
      fl_mul (Fin 611.2) (fl_exp (fl_div (fl_mul (Fin 17.67) (cell_at (arr a) i j))
            (fl_add (Fin 243.5) (cell_at (arr a) i j))))"
    and "nrows a = n \<Longrightarrow> rowx (calc_snow_saturate_vapor_pressure a) n"
    and "ncols a = m \<Longrightarrow> colx (calc_snow_saturate_vapor_pressure a) m"
  using assms
  by (simp_all add: calc_snow_saturate_vapor_pressure_def gops lift2_fits[where n=n and m=m] lift1_fits[where n=n and m=m] lift2_rowxI[where n=n and m=m] lift1_rowx
      del: fits_arr)

lemma calc_air_vapor_pressure_fits:
  assumes "fits (arr h) n m" "fits (arr e) n m"
  shows "fits (calc_air_vapor_pressure h e) n m"
    and "cell_at (calc_air_vapor_pressure h e) i j =
      fl_mul (fl_div (cell_at (arr h) i j) (Fin 100)) (cell_at (arr e) i j)"
    and "nrows h = n \<and> nrows e = n \<Longrightarrow> rowx (calc_air_vapor_pressure h e) n"
    and "ncols h = m \<and> ncols e = m \<Longrightarrow> colx (calc_air_vapor_pressure h e) m"
  using assms
  by (simp_all add: calc_air_vapor_pressure_def gops lift2_fits[where n=n and m=m] lift1_fits[where n=n and m=m] lift2_rowxI[where n=n and m=m] lift1_rowx
      del: fits_arr)

lemma calc_air_density_fits:
  assumes "fits (arr p) n m" "fits (arr a) n m"
  shows "fits (calc_air_density p a) n m"
    and "cell_at (calc_air_density p a) i j =
      fl_div (fl_div (cell_at (arr p) i j)
                (fl_mul R_SPECIFIC (fl_add (cell_at (arr a) i j) (Fin 273.16)))) (Fin 1000)"
    and "nrows p = n \<and> nrows a = n \<Longrightarrow> rowx (calc_air_density p a) n"
    and "ncols p = m \<and> ncols a = m \<Longrightarrow> colx (calc_air_density p a) m"
  using assms
  by (simp_all add: calc_air_density_def gops lift2_fits[where n=n and m=m] lift1_fits[where n=n and m=m] lift2_rowxI[where n=n and m=m] lift1_rowx
      del: fits_arr)

lemma calc_b_eq:
  "calc_b st r d =
     gmul (gmul (gdiv (gmul (num 0.622) (arr d)) (gmul (arr (P_A_of st r)) (sc RHO_W)))
                (gpow (num 10) (num 6)))
          (gdiv (gpow (sc K) (num 2)) (gpow (glog (gdiv (sc Z_A) (sc Z_0))) (num 2)))"
  by (simp add: calc_b_def P_A_of_def)

lemma calc_SH_eq:
  "calc_SH st r z f a s =
     gmul (gmul (gmul (gdiv (gmul (gmul (gdiv (gmul (arr z) (sc RHO_W)) (num 10))
                                        (num 0.24))
                                  (arr (P_A_of st r)))
                            (num 0.622))
                      (arr f))
                (gsub (arr a) (arr s)))
          (num 11.62)"
  by (simp add: calc_SH_def P_A_of_def)

lemma calc_b_fits:
  assumes "fits (arr (P_A_of st r)) n m" "fits (arr d) n m"
  shows "fits (calc_b st r d) n m"
    and "cell_at (calc_b st r d) i j =
      fl_mul (fl_mul (fl_div (fl_mul (Fin 0.622) (cell_at (arr d) i j))
                             (fl_mul (cell_at (arr (P_A_of st r)) i j) RHO_W))
                     (fl_pow (Fin 10) (Fin 6))) wind_scale"
    and "nrows d = n \<and> nrows (P_A_of st r) = n \<Longrightarrow> rowx (calc_b st r d) n"
    and "ncols d = m \<and> ncols (P_A_of st r) = m \<Longrightarrow> colx (calc_b st r d) m"
  using assms
  by (simp_all add: calc_b_eq wind_scale_def gops lift2_fits[where n=n and m=m] lift1_fits[where n=n and m=m] lift2_rowxI[where n=n and m=m] lift1_rowx
      del: fits_arr)

lemma calc_FU_fits:
  assumes "fits (arr c) n m" "fits (arr w) n m"
  shows "fits (calc_FU c w) n m"
    and "cell_at (calc_FU c w) i j =
      fl_mul (fl_mul (cell_at (arr c) i j) (cell_at (arr w) i j)) (Fin 3.6)"
    and "nrows c = n \<and> nrows w = n \<Longrightarrow> rowx (calc_FU c w) n"
    and "ncols c = m \<and> ncols w = m \<Longrightarrow> colx (calc_FU c w) m"
  using assms
  by (simp_all add: calc_FU_def gops lift2_fits[where n=n and m=m] lift1_fits[where n=n and m=m] lift2_rowxI[where n=n and m=m] lift1_rowx
      del: fits_arr)

lemma calc_exchange_coefficient_fits:
  assumes "fits (arr w) n m"
  shows "fits (calc_exchange_coefficient w) n m"
    and "cell_at (calc_exchange_coefficient w) i j =
      fl_div (fl_mul (fl_pow K (Fin 2)) (cell_at (arr w) i j))
             (fl_pow (fl_log (fl_div Z_A Z_0)) (Fin 2))"
    and "nrows w = n \<Longrightarrow> rowx (calc_exchange_coefficient w) n"
    and "ncols w = m \<Longrightarrow> colx (calc_exchange_coefficient w) m"
  using assms
  by (simp_all add: calc_exchange_coefficient_def gops lift2_fits[where n=n and m=m] lift1_fits[where n=n and m=m] lift2_rowxI[where n=n and m=m] lift1_rowx
      del: fits_arr)

lemma calc_gamma_fits:
  assumes "fits (arr d) n m" "fits (arr w) n m"
  shows "fits (calc_gamma d w) n m"
    and "cell_at (calc_gamma d w) i j =
      fl_mul (fl_div (fl_mul (fl_mul (Fin 5.3) (Fin 9.4)) (cell_at (arr d) i j)) (cell_at (arr w) i j))
             (fl_pow (fl_div Z_A Z_0) (Fin 0.5))"
    and "nrows d = n \<and> nrows w = n \<Longrightarrow> rowx (calc_gamma d w) n"
    and "ncols d = m \<and> ncols w = m \<Longrightarrow> colx (calc_gamma d w) m"
  using assms
  by (simp_all add: calc_gamma_def gops lift2_fits[where n=n and m=m] lift1_fits[where n=n and m=m] lift2_rowxI[where n=n and m=m] lift1_rowx
      del: fits_arr)

lemma calc_R_i_fits:
  assumes "fits (arr w) n m" "fits (arr a) n m"
  shows "fits (calc_R_i w a) n m"
    and "cell_at (calc_R_i w a) i j =
      fl_div (fl_mul (fl_div (fl_mul (fl_mul (Fin 2) (Fin 10)) Z_A) (Fin 100)) (cell_at (arr a) i j))
             (fl_mul (cell_at (arr a) i j) (fl_pow (fl_mul (Fin 27.78) (cell_at (arr w) i j)) (Fin 2)))"
    and "nrows w = n \<and> nrows a = n \<Longrightarrow> rowx (calc_R_i w a) n"
    and "ncols w = m \<and> ncols a = m \<Longrightarrow> colx (calc_R_i w a) m"
  using assms
  by (simp_all add: calc_R_i_def gops lift2_fits[where n=n and m=m] lift1_fits[where n=n and m=m] lift2_rowxI[where n=n and m=m] lift1_rowx
      del: fits_arr)

lemma calc_atm_emissivity_fits:
  assumes "fits (arr d) n m" "fits (arr a) n m"
  shows "fits (calc_atm_emissivity d a) n m"
    and "cell_at (calc_atm_emissivity d a) i j =
      fl_div (cell_at (arr d) i j)
        (fl_mul (fl_mul (fl_pow (fl_add (cell_at (arr a) i j) (Fin 273.16)) (Fin 4)) (Fin 5.67))
                (fl_pow (Fin 10) (Fin (- 8))))"
    and "nrows d = n \<and> nrows a = n \<Longrightarrow> rowx (calc_atm_emissivity d a) n"
    and "ncols d = m \<and> ncols a = m \<Longrightarrow> colx (calc_atm_emissivity d a) m"
  using assms
  by (simp_all add: calc_atm_emissivity_def gops lift2_fits[where n=n and m=m] lift1_fits[where n=n and m=m] lift2_rowxI[where n=n and m=m] lift1_rowx
      del: fits_arr)

lemma calc_weighted_emissivity_fits:
  assumes "fits (arr c) n m" "fits (arr e) n m"
  shows "fits (calc_weighted_emissivity c e) n m"
    and "cell_at (calc_weighted_emissivity c e) i j =
      fl_add (fl_mul (fl_sub (Fin 1) (cell_at (arr c) i j)) (cell_at (arr e) i j))
             (fl_mul (cell_at (arr c) i j) (Fin 0.98))"
    and "nrows c = n \<and> nrows e = n \<Longrightarrow> rowx (calc_weighted_emissivity c e) n"
    and "ncols c = m \<and> ncols e = m \<Longrightarrow> colx (calc_weighted_emissivity c e) m"
  using assms
  by (simp_all add: calc_weighted_emissivity_def gops lift2_fits[where n=n and m=m] lift1_fits[where n=n and m=m] lift2_rowxI[where n=n and m=m] lift1_rowx
      del: fits_arr)

lemma calc_LH_fits:
  assumes "fits (arr z) n m" "fits (arr f) n m" "fits (arr e) n m" "fits (arr s) n m"
  shows "fits (calc_LH z f e s) n m"
    and "cell_at (calc_LH z f e s) i j =
      fl_mul (fl_mul (fl_mul (fl_mul (fl_div (fl_mul (fl_mul (cell_at (arr z) i j) L_S) RHO_W) (Fin 10))
                                     (cell_at (arr f) i j))
                             (fl_sub (cell_at (arr e) i j) (cell_at (arr s) i j)))
                     PA_2_MB) (Fin 11.62)"
    and "nrows z = n \<and> nrows f = n \<and> nrows e = n \<and> nrows s = n \<Longrightarrow> rowx (calc_LH z f e s) n"
    and "ncols z = m \<and> ncols f = m \<and> ncols e = m \<and> ncols s = m \<Longrightarrow> colx (calc_LH z f e s) m"
  using assms
  by (simp_all add: calc_LH_def gops lift2_fits[where n=n and m=m] lift1_fits[where n=n and m=m] lift2_rowxI[where n=n and m=m] lift1_rowx
      del: fits_arr)

lemma calc_SH_fits:
  assumes "fits (arr (P_A_of st r)) n m" "fits (arr z) n m" "fits (arr f) n m" "fits (arr a) n m" "fits (arr s) n m"
  shows "fits (calc_SH st r z f a s) n m"
    and "cell_at (calc_SH st r z f a s) i j =
      fl_mul (fl_mul (fl_mul (fl_div (fl_mul (fl_mul (fl_div (fl_mul (cell_at (arr z) i j) RHO_W) (Fin 10))
                                                     (Fin 0.24))
                                             (cell_at (arr (P_A_of st r)) i j))
                                     (Fin 0.622))
                             (cell_at (arr f) i j))
                     (fl_sub (cell_at (arr a) i j) (cell_at (arr s) i j)))
             (Fin 11.62)"
    and "nrows z = n \<and> nrows (P_A_of st r) = n \<and> nrows f = n \<and> nrows a = n \<and> nrows s = n \<Longrightarrow> rowx (calc_SH st r z f a s) n"
    and "ncols z = m \<and> ncols (P_A_of st r) = m \<and> ncols f = m \<and> ncols a = m \<and> ncols s = m \<Longrightarrow> colx (calc_SH st r z f a s) m"
  using assms
  by (simp_all add: calc_SH_eq gops lift2_fits[where n=n and m=m] lift1_fits[where n=n and m=m] lift2_rowxI[where n=n and m=m] lift1_rowx
      del: fits_arr)

lemma calc_DLW_fits:
  assumes "fits (arr d) n m" "fits (arr w) n m" "fits (arr e) n m"
  shows "fits (calc_DLW d w e) n m"
    and "cell_at (calc_DLW d w e) i j =
      fl_div (fl_mul (cell_at (arr d) i j) (cell_at (arr w) i j)) (cell_at (arr e) i j)"
    and "nrows d = n \<and> nrows w = n \<and> nrows e = n \<Longrightarrow> rowx (calc_DLW d w e) n"
    and "ncols d = m \<and> ncols w = m \<and> ncols e = m \<Longrightarrow> colx (calc_DLW d w e) m"
  using assms
  by (simp_all add: calc_DLW_def gops lift2_fits[where n=n and m=m] lift1_fits[where n=n and m=m] lift2_rowxI[where n=n and m=m] lift1_rowx
      del: fits_arr)

lemma calc_ULW_fits:
  assumes "fits (arr s) n m"
  shows "fits (calc_ULW s) n m"
    and "cell_at (calc_ULW s) i j =
      fl_mul (fl_mul (fl_mul (Fin 0.98) (Fin 5.67)) (fl_pow (Fin 10) (Fin (- 8))))
             (fl_pow (fl_add (cell_at (arr s) i j) (Fin 273.16)) (Fin 4))"
    and "nrows s = n \<Longrightarrow> rowx (calc_ULW s) n"
    and "ncols s = m \<Longrightarrow> colx (calc_ULW s) m"
  using assms
  by (simp_all add: calc_ULW_def gops lift2_fits[where n=n and m=m] lift1_fits[where n=n and m=m] lift2_rowxI[where n=n and m=m] lift1_rowx
      del: fits_arr)

lemma load_F_c_fits:
  assumes "amr_forest_density st r = Some g" "fits (arr g) n m"
  shows "fits (load_F_c st r) n m"
    and "cell_at (load_F_c st r) i j = fl_div (cell_at (arr g) i j) (Fin 100)"
    and "nrows g = n \<Longrightarrow> rowx (load_F_c st r) n"
    and "ncols g = m \<Longrightarrow> colx (load_F_c st r) m"
  using assms
  by (simp_all add: load_F_c_def gops lift2_fits[where n=n and m=m] lift1_fits[where n=n and m=m] lift2_rowxI[where n=n and m=m] lift1_rowx
      del: fits_arr)

section \<open>The masked assignments\<close>

lemma set_gwhere: "set (gwhere P g) = {(i, j). i < nrows g \<and> j < ncols g \<and> P (cell g i j)}"
  by (auto simp: gwhere_def)

lemma in_bounds_gwhere: "nrows g \<le> nrows h \<Longrightarrow> ncols g \<le> ncols h \<Longrightarrow> in_bounds h (gwhere P g)"
  by (auto simp: in_bounds_def list_all_iff set_gwhere)

lemma fold_store:
  "fold store (zip idx (map F idx)) c = (\<lambda>i j. if (i, j) \<in> set idx then F (i, j) else c i j)"
proof (induction idx arbitrary: c)
  case Nil
  show ?case by simp
next
  case (Cons p idx)
  have "fold store (zip (p # idx) (map F (p # idx))) c
      = fold store (zip idx (map F idx)) (store (p, F p) c)"
    by simp
  also have "\<dots> = (\<lambda>i j. if (i, j) \<in> set idx then F (i, j) else store (p, F p) c i j)"
    by (rule Cons.IH)
  also have "\<dots> = (\<lambda>i j. if (i, j) \<in> set (p # idx) then F (i, j) else c i j)"
    by (cases p) (auto simp: store_def fun_eq_iff)
  finally show ?case .
qed

lemma map2_map_map: "map2 f (map u idx) (map v idx) = map (\<lambda>p. f (u p) (v p)) idx"
  by (induction idx) simp_all

lemma fl_sign_excl: "fl_greater r (Fin 0) \<Longrightarrow> \<not> fl_less r (Fin 0)"
  by (cases r) (auto simp: fl_greater_def)

lemma assign_zeta_eq:
  assumes "in_bounds G (gwhere (\<lambda>x. fl_less x (Fin 0)) R)"
  shows "assign_zeta G R =
    Inr \<lparr>nrows = nrows R, ncols = ncols R,
         cell = (\<lambda>i j. if i < nrows R \<and> j < ncols R then zeta_cell (cell R i j) (cell G i j) else Fin 0)\<rparr>"
proof -
  have b: "in_bounds R (gwhere P R)" for P by (rule in_bounds_gwhere) simp_all
  have "fold store (zip (gwhere (\<lambda>x. fl_less x (Fin 0)) R)
           (map (\<lambda>p. unstable (cell R (fst p) (snd p)) (cell G (fst p) (snd p))) (gwhere (\<lambda>x. fl_less x (Fin 0)) R)))
         (fold store (zip (gwhere (\<lambda>x. fl_greater x (Fin 0)) R)
           (map (\<lambda>p. stable (cell R (fst p) (snd p))) (gwhere (\<lambda>x. fl_greater x (Fin 0)) R))) (\<lambda>i j. Fin 0))
     = (\<lambda>i j. if i < nrows R \<and> j < ncols R then zeta_cell (cell R i j) (cell G i j) else Fin 0)"
    by (auto simp: fold_store set_gwhere fun_eq_iff zeta_cell_def dest: fl_sign_excl)
  then show ?thesis
    using assms
    by (simp add: assign_zeta_def gtake_def b gput_def zeros_def Let_def map2_map_map comp_def)
qed

section \<open>Arithmetic of the bulk Richardson number\<close>

lemma is_int_numeral [simp]: "is_int (numeral k)" "is_int 1" "is_int 0"
  by (simp_all add: is_int_def)

lemma odd_int_2 [simp]: "\<not> odd_int 2" "\<not> odd_int 4"
  by (simp_all add: odd_int_def)

lemma c200: "fl_div (fl_mul (fl_mul (Fin 2) (Fin 10)) Z_A) (Fin 100) = Fin 200"
  by (simp add: Z_A_def)

lemma fl_pow_Fin_2: "u \<noteq> 0 \<Longrightarrow> fl_pow (Fin u) (Fin 2) = Fin (u\<^sup>2)"
  by (cases "0 < u") (simp_all add: fl_pow_def)

lemma fl_pow_Fin_4: "u \<noteq> 0 \<Longrightarrow> fl_pow (Fin u) (Fin 4) = Fin (u ^ 4)"
  by (cases "0 < u") (simp_all add: fl_pow_def)

lemma fl_pow_2_cases:
  "fl_pow x (Fin 2) = NaN \<or> fl_pow x (Fin 2) = PInf \<or> (\<exists>p. 0 \<le> p \<and> fl_pow x (Fin 2) = Fin p)"
proof (cases x)
  case (Fin u)
  then show ?thesis
    by (cases "u = 0") (simp_all add: fl_pow_Fin_2, simp add: fl_pow_def)
qed (simp_all add: fl_pow_def)

lemma R_cell_not_neg:
  assumes "P = NaN \<or> P = PInf \<or> (\<exists>p. 0 \<le> p \<and> P = Fin p)"
  shows "\<not> fl_less (fl_div (fl_mul (Fin 200) a) (fl_mul a P)) (Fin 0)"
  using assms
  by (cases a) (auto simp: zero_of_def inf_of_def zero_less_mult_iff mult_less_0_iff
      divide_less_0_iff split: if_splits)

lemma R_cell_finite:
  assumes "x \<noteq> 0" "u \<noteq> 0"
  shows "fl_div (fl_mul (Fin 200) (Fin x)) (fl_mul (Fin x) (fl_pow (fl_mul (Fin 27.78) (Fin u)) (Fin 2)))
     = Fin (200 / (27.78 * u)\<^sup>2)"
  using assms by (simp add: fl_pow_Fin_2)

section \<open>The methods on grids of one shape\<close>

lemma cellsI:
  assumes "fits r n m" "rowx r n" "colx r m"
    and "\<And>i j. i < n \<Longrightarrow> j < m \<Longrightarrow> cell_at r i j = F i j"
  shows "cells r n m F"
  using exact_cell[OF assms(2,3)] assms(4) by (auto simp: cells_def shape_def)

lemma shape_fits: "shape g = (n, m) \<Longrightarrow> fits (arr g) n m"
  by (simp add: shape_def)

lemma shape_at: "shape g = (n, m) \<Longrightarrow> i < n \<Longrightarrow> j < m \<Longrightarrow> cell_at (arr g) i j = cell g i j"
  by (simp add: shape_def at_arr)

lemma shape_rc: "shape g = (n, m) \<Longrightarrow> nrows g = n" "shape g = (n, m) \<Longrightarrow> ncols g = m"
  by (simp_all add: shape_def)

lemma calc_relative_humidity_cells:
  assumes "shape p = (n, m)" "shape q = (n, m)" "shape a = (n, m)"
  shows "cells (calc_relative_humidity p q a) n m (\<lambda>i j. rh_cell (cell p i j) (cell q i j) (cell a i j))"
  using assms
  by (intro cellsI) (simp_all add: calc_relative_humidity_fits[where n=n and m=m] shape_def at_arr rh_cell_def)

lemma calc_air_saturate_vapor_pressure_cells:
  assumes "shape a = (n, m)"
  shows "cells (calc_air_saturate_vapor_pressure a) n m (\<lambda>i j. e_sat_cell (cell a i j))"
  using assms
  by (intro cellsI) (simp_all add: calc_air_saturate_vapor_pressure_fits[where n=n and m=m] shape_def at_arr e_sat_cell_def)

lemma calc_snow_saturate_vapor_pressure_cells:
  assumes "shape a = (n, m)"
  shows "cells (calc_snow_saturate_vapor_pressure a) n m (\<lambda>i j. e_sat_cell (cell a i j))"
  using assms
  by (intro cellsI) (simp_all add: calc_snow_saturate_vapor_pressure_fits[where n=n and m=m] shape_def at_arr e_sat_cell_def)

lemma calc_air_vapor_pressure_cells:
  assumes "shape h = (n, m)" "shape e = (n, m)"
  shows "cells (calc_air_vapor_pressure h e) n m (\<lambda>i j. e_a_cell (cell h i j) (cell e i j))"
  using assms
  by (intro cellsI) (simp_all add: calc_air_vapor_pressure_fits[where n=n and m=m] shape_def at_arr e_a_cell_def)

lemma calc_air_density_cells:
  assumes "shape p = (n, m)" "shape a = (n, m)"
  shows "cells (calc_air_density p a) n m (\<lambda>i j. rho_a_cell (cell p i j) (cell a i j))"
  using assms
  by (intro cellsI) (simp_all add: calc_air_density_fits[where n=n and m=m] shape_def at_arr rho_a_cell_def)

lemma calc_b_cells:
  assumes "shape (P_A_of st r) = (n, m)" "shape d = (n, m)"
  shows "cells (calc_b st r d) n m (\<lambda>i j. b_cell (cell (P_A_of st r) i j) (cell d i j))"
  using assms
  by (intro cellsI) (simp_all add: calc_b_fits[where n=n and m=m] shape_def at_arr b_cell_def)

lemma calc_FU_cells:
  assumes "shape c = (n, m)" "shape w = (n, m)"
  shows "cells (calc_FU c w) n m (\<lambda>i j. fu_cell (cell c i j) (cell w i j))"
  using assms
  by (intro cellsI) (simp_all add: calc_FU_fits[where n=n and m=m] shape_def at_arr fu_cell_def)

lemma calc_exchange_coefficient_cells:
  assumes "shape w = (n, m)"
  shows "cells (calc_exchange_coefficient w) n m (\<lambda>i j. d_h_e_cell (cell w i j))"
  using assms
  by (intro cellsI) (simp_all add: calc_exchange_coefficient_fits[where n=n and m=m] shape_def at_arr d_h_e_cell_def)

lemma calc_gamma_cells:
  assumes "shape d = (n, m)" "shape w = (n, m)"
  shows "cells (calc_gamma d w) n m (\<lambda>i j. gamma_cell (cell d i j) (cell w i j))"
  using assms
  by (intro cellsI) (simp_all add: calc_gamma_fits[where n=n and m=m] shape_def at_arr gamma_cell_def)

lemma calc_R_i_cells:
  assumes "shape w = (n, m)" "shape a = (n, m)"
  shows "cells (calc_R_i w a) n m (\<lambda>i j. R_i_cell (cell w i j) (cell a i j))"
  using assms
  by (intro cellsI) (simp_all add: calc_R_i_fits[where n=n and m=m] shape_def at_arr R_i_cell_def)

lemma calc_atm_emissivity_cells:
  assumes "shape d = (n, m)" "shape a = (n, m)"
  shows "cells (calc_atm_emissivity d a) n m (\<lambda>i j. atm_cell (cell d i j) (cell a i j))"
  using assms
  by (intro cellsI) (simp_all add: calc_atm_emissivity_fits[where n=n and m=m] shape_def at_arr atm_cell_def)

lemma calc_weighted_emissivity_cells:
  assumes "shape c = (n, m)" "shape e = (n, m)"
  shows "cells (calc_weighted_emissivity c e) n m (\<lambda>i j. weighted_cell (cell c i j) (cell e i j))"
  using assms
  by (intro cellsI) (simp_all add: calc_weighted_emissivity_fits[where n=n and m=m] shape_def at_arr weighted_cell_def)

lemma calc_LH_cells:
  assumes "shape z = (n, m)" "shape f = (n, m)" "shape e = (n, m)" "shape s = (n, m)"
  shows "cells (calc_LH z f e s) n m (\<lambda>i j. LH_cell (cell z i j) (cell f i j) (cell e i j) (cell s i j))"
  using assms
  by (intro cellsI) (simp_all add: calc_LH_fits[where n=n and m=m] shape_def at_arr LH_cell_def)

lemma calc_SH_cells:
  assumes "shape (P_A_of st r) = (n, m)" "shape z = (n, m)" "shape f = (n, m)" "shape a = (n, m)" "shape s = (n, m)"
  shows "cells (calc_SH st r z f a s) n m
    (\<lambda>i j. SH_cell (cell (P_A_of st r) i j) (cell z i j) (cell f i j) (cell a i j) (cell s i j))"
  using assms
  by (intro cellsI) (simp_all add: calc_SH_fits[where n=n and m=m] shape_def at_arr SH_cell_def)

lemma calc_DLW_cells:
  assumes "shape d = (n, m)" "shape w = (n, m)" "shape e = (n, m)"
  shows "cells (calc_DLW d w e) n m (\<lambda>i j. CDLW_cell (cell d i j) (cell w i j) (cell e i j))"
  using assms
  by (intro cellsI) (simp_all add: calc_DLW_fits[where n=n and m=m] shape_def at_arr CDLW_cell_def)

lemma calc_ULW_cells:
  assumes "shape s = (n, m)"
  shows "cells (calc_ULW s) n m (\<lambda>i j. ULW_cell (cell s i j))"
  using assms
  by (intro cellsI) (simp_all add: calc_ULW_fits[where n=n and m=m] shape_def at_arr ULW_cell_def)

lemma load_F_c_cells:
  assumes "amr_forest_density st r = Some g" "shape g = (n, m)"
  shows "cells (load_F_c st r) n m (\<lambda>i j. F_c_cell (cell g i j))"
  using assms
  by (intro cellsI) (simp_all add: load_F_c_fits[where n=n and m=m] shape_def at_arr F_c_cell_def)

section \<open>The unstable correction and the constructor\<close>

lemma fitsD: "fits r n m \<Longrightarrow> \<exists>g. r = Inr g \<and> fits (arr g) n m"
  by (auto simp: fits_def arr_def split: sum.splits)

lemma gwhere_Nil: "(\<And>i j. i < nrows g \<Longrightarrow> j < ncols g \<Longrightarrow> \<not> P (cell g i j)) \<Longrightarrow> gwhere P g = []"
  by (auto simp: gwhere_def filter_empty_conv)

lemma R_i_cell_not_neg: "\<not> fl_less (R_i_cell w a) (Fin 0)"
  unfolding R_i_cell_def c200 by (rule R_cell_not_neg) (rule fl_pow_2_cases)

lemma calc_R_i_no_neg:
  assumes "fits (arr w) n m" "fits (arr a) n m" "calc_R_i w a = Inr R"
  shows "gwhere (\<lambda>x. fl_less x (Fin 0)) R = []"
proof (rule gwhere_Nil)
  fix i j assume "i < nrows R" "j < ncols R"
  then have "cell R i j = cell_at (calc_R_i w a) i j"
    by (simp add: assms(3) cell_at_def bidx_lt)
  also have "\<dots> = R_i_cell (cell_at (arr w) i j) (cell_at (arr a) i j)"
    by (simp add: calc_R_i_fits(2)[OF assms(1,2)] R_i_cell_def)
  finally show "\<not> fl_less (cell R i j) (Fin 0)"
    by (simp add: R_i_cell_not_neg)
qed

lemma assign_zeta_no_neg:
  assumes "gwhere (\<lambda>x. fl_less x (Fin 0)) R = []"
  shows "assign_zeta G R =
    Inr \<lparr>nrows = nrows R, ncols = ncols R,
         cell = (\<lambda>i j. if i < nrows R \<and> j < ncols R then zeta_cell (cell R i j) (cell G i j) else Fin 0)\<rparr>"
  by (rule assign_zeta_eq) (simp add: assms in_bounds_def)

lemma calc_unstable_correction_fits:
  assumes "fits (arr d) n m" "fits (arr w) n m" "fits (arr a) n m"
  shows "\<exists>z. calc_unstable_correction d w a = Inr z \<and> fits (arr z) n m"
proof -
  from fitsD[OF calc_gamma_fits(1)[OF assms(1,2)]] obtain G where G: "calc_gamma d w = Inr G" by blast
  from fitsD[OF calc_R_i_fits(1)[OF assms(2,3)]] obtain R where
    R: "calc_R_i w a = Inr R" "fits (arr R) n m" by blast
  show ?thesis
    using R(2) by (simp add: calc_unstable_correction_def G R(1)
        assign_zeta_no_neg[OF calc_R_i_no_neg[OF assms(2,3) R(1)]])
qed

lemma cellsD:
  assumes "cells r n m F" "r = Inr g"
  shows "shape g = (n, m)" "\<And>i j. i < n \<Longrightarrow> j < m \<Longrightarrow> cell g i j = F i j"
  using assms by (auto simp: cells_def)

lemma calc_unstable_correction_cells:
  assumes "shape d = (n, m)" "shape w = (n, m)" "shape a = (n, m)"
  shows "cells (calc_unstable_correction d w a) n m
    (\<lambda>i j. zeta_cell (R_i_cell (cell w i j) (cell a i j)) (gamma_cell (cell d i j) (cell w i j)))"
proof -
  from calc_gamma_cells[OF assms(1,2)] obtain G where G: "calc_gamma d w = Inr G" "shape G = (n, m)"
    "\<forall>i<n. \<forall>j<m. cell G i j = gamma_cell (cell d i j) (cell w i j)"
    by (auto simp: cells_def)
  from calc_R_i_cells[OF assms(2,3)] obtain R where R: "calc_R_i w a = Inr R" "shape R = (n, m)"
    "\<forall>i<n. \<forall>j<m. cell R i j = R_i_cell (cell w i j) (cell a i j)"
    by (auto simp: cells_def)
  have fw: "fits (arr w) n m" and fa: "fits (arr a) n m"
    using assms by (simp_all add: shape_def)
  show ?thesis
    using G(2,3) R(2,3)
    by (simp add: calc_unstable_correction_def G(1) R(1) cells_def shape_def
        assign_zeta_no_neg[OF calc_R_i_no_neg[OF fw fa R(1)]])
qed

lemma init_fields:
  assumes "init st a s p q w d r = Inr ev"
  shows "air_tmp ev = a" "snow_tmp ev = s" "pres ev = p" "spfh ev = q" "wind ev = w" "dlw ev = d"
    "res ev = r"
    "load_F_c st r = Inr (F_c ev)"
    "calc_relative_humidity p q a = Inr (rh ev)"
    "calc_air_saturate_vapor_pressure a = Inr (e_sat_air ev)"
    "calc_snow_saturate_vapor_pressure s = Inr (e_sat_snow ev)"
    "calc_air_vapor_pressure (rh ev) (e_sat_air ev) = Inr (e_a ev)"
    "calc_air_density p a = Inr (rho_a ev)"
    "calc_b st r (rho_a ev) = Inr (b ev)"
    "calc_FU (b ev) w = Inr (fu ev)"
    "calc_exchange_coefficient w = Inr (d_h_e ev)"
    "calc_unstable_correction (d_h_e ev) w a = Inr (zeta ev)"
    "calc_atm_emissivity d a = Inr (atm_emissivity ev)"
    "calc_weighted_emissivity (F_c ev) (atm_emissivity ev) = Inr (weighted_emissivity ev)"
    "calc_LH (zeta ev) (fu ev) (e_a ev) (e_sat_snow ev) = Inr (LH ev)"
    "calc_SH st r (zeta ev) (fu ev) a s = Inr (SH ev)"
    "calc_DLW d (weighted_emissivity ev) (atm_emissivity ev) = Inr (CDLW ev)"
    "calc_ULW s = Inr (ULW ev)"
  using assms unfolding init_def by (auto simp: rbind_eq_Inr)

lemma init_total:
  assumes g: "amr_forest_density st r = Some g" "fits (arr g) n m"
    and pa: "fits (arr (P_A_of st r)) n m"
    and a: "fits (arr a) n m" and s: "fits (arr s) n m" and p: "fits (arr p) n m"
    and q: "fits (arr q) n m" and w: "fits (arr w) n m" and d: "fits (arr d) n m"
  shows "\<exists>ev. init st a s p q w d r = Inr ev"
proof -
  from fitsD[OF load_F_c_fits(1)[OF g]] obtain x1 where
    x1: "load_F_c st r = Inr x1" "fits (arr x1) n m" by blast
  from fitsD[OF calc_relative_humidity_fits(1)[OF p q a]] obtain x2 where
    x2: "calc_relative_humidity p q a = Inr x2" "fits (arr x2) n m" by blast
  from fitsD[OF calc_air_saturate_vapor_pressure_fits(1)[OF a]] obtain x3 where
    x3: "calc_air_saturate_vapor_pressure a = Inr x3" "fits (arr x3) n m" by blast
  from fitsD[OF calc_snow_saturate_vapor_pressure_fits(1)[OF s]] obtain x4 where
    x4: "calc_snow_saturate_vapor_pressure s = Inr x4" "fits (arr x4) n m" by blast
  from fitsD[OF calc_air_vapor_pressure_fits(1)[OF x2(2) x3(2)]] obtain x5 where
    x5: "calc_air_vapor_pressure x2 x3 = Inr x5" "fits (arr x5) n m" by blast
  from fitsD[OF calc_air_density_fits(1)[OF p a]] obtain x6 where
    x6: "calc_air_density p a = Inr x6" "fits (arr x6) n m" by blast
  from fitsD[OF calc_b_fits(1)[OF pa x6(2)]] obtain x7 where
    x7: "calc_b st r x6 = Inr x7" "fits (arr x7) n m" by blast
  from fitsD[OF calc_FU_fits(1)[OF x7(2) w]] obtain x8 where
    x8: "calc_FU x7 w = Inr x8" "fits (arr x8) n m" by blast
  from fitsD[OF calc_exchange_coefficient_fits(1)[OF w]] obtain x9 where
    x9: "calc_exchange_coefficient w = Inr x9" "fits (arr x9) n m" by blast
  from calc_unstable_correction_fits[OF x9(2) w a] obtain x10 where
    x10: "calc_unstable_correction x9 w a = Inr x10" "fits (arr x10) n m" by blast
  from fitsD[OF calc_atm_emissivity_fits(1)[OF d a]] obtain x11 where
    x11: "calc_atm_emissivity d a = Inr x11" "fits (arr x11) n m" by blast
  from fitsD[OF calc_weighted_emissivity_fits(1)[OF x1(2) x11(2)]] obtain x12 where
    x12: "calc_weighted_emissivity x1 x11 = Inr x12" "fits (arr x12) n m" by blast
  from fitsD[OF calc_LH_fits(1)[OF x10(2) x8(2) x5(2) x4(2)]] obtain x13 where
    x13: "calc_LH x10 x8 x5 x4 = Inr x13" by blast
  from fitsD[OF calc_SH_fits(1)[OF pa x10(2) x8(2) a s]] obtain x14 where
    x14: "calc_SH st r x10 x8 a s = Inr x14" by blast
  from fitsD[OF calc_DLW_fits(1)[OF d x12(2) x11(2)]] obtain x15 where
    x15: "calc_DLW d x12 x11 = Inr x15" by blast
  from fitsD[OF calc_ULW_fits(1)[OF s]] obtain x16 where
    x16: "calc_ULW s = Inr x16" by blast
  show ?thesis
    by (simp add: init_def x1(1) x2(1) x3(1) x4(1) x5(1) x6(1) x7(1) x8(1) x9(1) x10(1)
        x11(1) x12(1) x13 x14 x15 x16)
qed

lemma cells_Inr:
  assumes "cells r n m F" "r = Inr g"
  shows "shape g = (n, m) \<and> (\<forall>i<n. \<forall>j<m. cell g i j = F i j)"
  using assms by (auto simp: cells_def)

lemma init_cells:
  assumes ev: "init st a s p q w d r = Inr ev"
    and g: "amr_forest_density st r = Some g" "shape g = (n, m)"
    and pa: "shape (P_A_of st r) = (n, m)"
    and sh: "shape a = (n, m)" "shape s = (n, m)" "shape p = (n, m)"
      "shape q = (n, m)" "shape w = (n, m)" "shape d = (n, m)"
  shows "shape (F_c ev) = (n, m) \<and> (\<forall>i<n. \<forall>j<m. cell (F_c ev) i j = F_c_cell (cell g i j))"
    and "shape (rh ev) = (n, m) \<and> (\<forall>i<n. \<forall>j<m. cell (rh ev) i j = rh_cell (cell p i j) (cell q i j) (cell a i j))"
    and "shape (e_sat_air ev) = (n, m) \<and> (\<forall>i<n. \<forall>j<m. cell (e_sat_air ev) i j = e_sat_cell (cell a i j))"
    and "shape (e_sat_snow ev) = (n, m) \<and> (\<forall>i<n. \<forall>j<m. cell (e_sat_snow ev) i j = e_sat_cell (cell s i j))"
    and "shape (e_a ev) = (n, m) \<and> (\<forall>i<n. \<forall>j<m. cell (e_a ev) i j = e_a_cell (cell (rh ev) i j) (cell (e_sat_air ev) i j))"
    and "shape (rho_a ev) = (n, m) \<and> (\<forall>i<n. \<forall>j<m. cell (rho_a ev) i j = rho_a_cell (cell p i j) (cell a i j))"
    and "shape (b ev) = (n, m) \<and> (\<forall>i<n. \<forall>j<m. cell (b ev) i j = b_cell (cell (P_A_of st r) i j) (cell (rho_a ev) i j))"
    and "shape (fu ev) = (n, m) \<and> (\<forall>i<n. \<forall>j<m. cell (fu ev) i j = fu_cell (cell (b ev) i j) (cell w i j))"
    and "shape (d_h_e ev) = (n, m) \<and> (\<forall>i<n. \<forall>j<m. cell (d_h_e ev) i j = d_h_e_cell (cell w i j))"
    and "shape (zeta ev) = (n, m) \<and> (\<forall>i<n. \<forall>j<m. cell (zeta ev) i j =
           zeta_cell (R_i_cell (cell w i j) (cell a i j)) (gamma_cell (cell (d_h_e ev) i j) (cell w i j)))"
    and "shape (atm_emissivity ev) = (n, m) \<and> (\<forall>i<n. \<forall>j<m. cell (atm_emissivity ev) i j = atm_cell (cell d i j) (cell a i j))"
    and "shape (weighted_emissivity ev) = (n, m) \<and> (\<forall>i<n. \<forall>j<m. cell (weighted_emissivity ev) i j =
           weighted_cell (cell (F_c ev) i j) (cell (atm_emissivity ev) i j))"
    and "shape (LH ev) = (n, m) \<and> (\<forall>i<n. \<forall>j<m. cell (LH ev) i j =
           LH_cell (cell (zeta ev) i j) (cell (fu ev) i j) (cell (e_a ev) i j) (cell (e_sat_snow ev) i j))"
    and "shape (SH ev) = (n, m) \<and> (\<forall>i<n. \<forall>j<m. cell (SH ev) i j =
           SH_cell (cell (P_A_of st r) i j) (cell (zeta ev) i j) (cell (fu ev) i j) (cell a i j) (cell s i j))"
    and "shape (CDLW ev) = (n, m) \<and> (\<forall>i<n. \<forall>j<m. cell (CDLW ev) i j =
           CDLW_cell (cell d i j) (cell (weighted_emissivity ev) i j) (cell (atm_emissivity ev) i j))"
    and "shape (ULW ev) = (n, m) \<and> (\<forall>i<n. \<forall>j<m. cell (ULW ev) i j = ULW_cell (cell s i j))"
proof -
  note f = init_fields[OF ev]
  show c1: "shape (F_c ev) = (n, m) \<and> (\<forall>i<n. \<forall>j<m. cell (F_c ev) i j = F_c_cell (cell g i j))"
    by (rule cells_Inr[OF load_F_c_cells[OF g] f(8)])
  show c2: "shape (rh ev) = (n, m) \<and> (\<forall>i<n. \<forall>j<m. cell (rh ev) i j = rh_cell (cell p i j) (cell q i j) (cell a i j))"
    by (rule cells_Inr[OF calc_relative_humidity_cells[OF sh(3,4,1)] f(9)])
  show c3: "shape (e_sat_air ev) = (n, m) \<and> (\<forall>i<n. \<forall>j<m. cell (e_sat_air ev) i j = e_sat_cell (cell a i j))"
    by (rule cells_Inr[OF calc_air_saturate_vapor_pressure_cells[OF sh(1)] f(10)])
  show c4: "shape (e_sat_snow ev) = (n, m) \<and> (\<forall>i<n. \<forall>j<m. cell (e_sat_snow ev) i j = e_sat_cell (cell s i j))"
    by (rule cells_Inr[OF calc_snow_saturate_vapor_pressure_cells[OF sh(2)] f(11)])
  show c5: "shape (e_a ev) = (n, m) \<and> (\<forall>i<n. \<forall>j<m. cell (e_a ev) i j = e_a_cell (cell (rh ev) i j) (cell (e_sat_air ev) i j))"
    by (rule cells_Inr[OF calc_air_vapor_pressure_cells[OF conjunct1[OF c2] conjunct1[OF c3]] f(12)])
  show c6: "shape (rho_a ev) = (n, m) \<and> (\<forall>i<n. \<forall>j<m. cell (rho_a ev) i j = rho_a_cell (cell p i j) (cell a i j))"
    by (rule cells_Inr[OF calc_air_density_cells[OF sh(3,1)] f(13)])
  show c7: "shape (b ev) = (n, m) \<and> (\<forall>i<n. \<forall>j<m. cell (b ev) i j = b_cell (cell (P_A_of st r) i j) (cell (rho_a ev) i j))"
    by (rule cells_Inr[OF calc_b_cells[OF pa conjunct1[OF c6]] f(14)])
  show c8: "shape (fu ev) = (n, m) \<and> (\<forall>i<n. \<forall>j<m. cell (fu ev) i j = fu_cell (cell (b ev) i j) (cell w i j))"
    by (rule cells_Inr[OF calc_FU_cells[OF conjunct1[OF c7] sh(5)] f(15)])
  show c9: "shape (d_h_e ev) = (n, m) \<and> (\<forall>i<n. \<forall>j<m. cell (d_h_e ev) i j = d_h_e_cell (cell w i j))"
    by (rule cells_Inr[OF calc_exchange_coefficient_cells[OF sh(5)] f(16)])
  show c10: "shape (zeta ev) = (n, m) \<and> (\<forall>i<n. \<forall>j<m. cell (zeta ev) i j =
           zeta_cell (R_i_cell (cell w i j) (cell a i j)) (gamma_cell (cell (d_h_e ev) i j) (cell w i j)))"
    by (rule cells_Inr[OF calc_unstable_correction_cells[OF conjunct1[OF c9] sh(5,1)] f(17)])
  show c11: "shape (atm_emissivity ev) = (n, m) \<and> (\<forall>i<n. \<forall>j<m. cell (atm_emissivity ev) i j = atm_cell (cell d i j) (cell a i j))"
    by (rule cells_Inr[OF calc_atm_emissivity_cells[OF sh(6,1)] f(18)])
  show c12: "shape (weighted_emissivity ev) = (n, m) \<and> (\<forall>i<n. \<forall>j<m. cell (weighted_emissivity ev) i j =
           weighted_cell (cell (F_c ev) i j) (cell (atm_emissivity ev) i j))"
    by (rule cells_Inr[OF calc_weighted_emissivity_cells[OF conjunct1[OF c1] conjunct1[OF c11]] f(19)])
  show "shape (LH ev) = (n, m) \<and> (\<forall>i<n. \<forall>j<m. cell (LH ev) i j =
           LH_cell (cell (zeta ev) i j) (cell (fu ev) i j) (cell (e_a ev) i j) (cell (e_sat_snow ev) i j))"
    by (rule cells_Inr[OF calc_LH_cells[OF conjunct1[OF c10] conjunct1[OF c8] conjunct1[OF c5] conjunct1[OF c4]] f(20)])
  show "shape (SH ev) = (n, m) \<and> (\<forall>i<n. \<forall>j<m. cell (SH ev) i j =
           SH_cell (cell (P_A_of st r) i j) (cell (zeta ev) i j) (cell (fu ev) i j) (cell a i j) (cell s i j))"
    by (rule cells_Inr[OF calc_SH_cells[OF pa conjunct1[OF c10] conjunct1[OF c8] sh(1,2)] f(21)])
  show "shape (CDLW ev) = (n, m) \<and> (\<forall>i<n. \<forall>j<m. cell (CDLW ev) i j =
           CDLW_cell (cell d i j) (cell (weighted_emissivity ev) i j) (cell (atm_emissivity ev) i j))"
    by (rule cells_Inr[OF calc_DLW_cells[OF sh(6) conjunct1[OF c12] conjunct1[OF c11]] f(22)])
  show "shape (ULW ev) = (n, m) \<and> (\<forall>i<n. \<forall>j<m. cell (ULW ev) i j = ULW_cell (cell s i j))"
    by (rule cells_Inr[OF calc_ULW_cells[OF sh(2)] f(23)])
qed

section \<open>The standalone relative humidity\<close>

lemma shape_uniform [simp]: "shape (uniform n m x) = (n, m)" "nrows (uniform n m x) = n"
  "ncols (uniform n m x) = m" "cell (uniform n m x) i j = x"
  by (simp_all add: uniform_def shape_def)

lemma example_statics_simps [simp]:
  "P_A_30 example_statics = uniform 1 1 (Fin 800)"
  "P_A_500 example_statics = uniform 1 1 (Fin 900)"
  "amr_forest_density example_statics 500 = Some (uniform 1 1 (Fin 0))"
  "amr_forest_density example_statics 30 = Some (uniform 1 1 (Fin 0))"
  "amr_forest_density example_statics 7 = Some (uniform 1 1 (Fin 0))"
  "amr_forest_density example_statics 8 = None"
  by (simp_all add: example_statics_def)

lemma P_A_of_example [simp]:
  "P_A_of example_statics 500 = uniform 1 1 (Fin 900)"
  "r \<noteq> 500 \<Longrightarrow> P_A_of example_statics r = uniform 1 1 (Fin 800)"
  by (simp_all add: P_A_of_def)

lemma init_example_total:
  assumes "amr_forest_density example_statics r = Some (uniform 1 1 x)"
  shows "\<exists>ev. init example_statics (uniform n m a) (uniform n m s) (uniform n m p)
     (uniform n m q) (uniform n m w) (uniform n m d) r = Inr ev"
  by (rule init_total[OF assms, where n = n and m = m]) (simp_all add: P_A_of_def)

text \<open>
  C9. Applied to the same air temperature, pressure and specific humidity, the standalone
  function \<^verbatim>\<open>calc_rh\<close> returns the value (or raises the exception) of the method
  \<^verbatim>\<open>calc_relative_humidity\<close>; in particular it returns the grid \<^verbatim>\<open>rh\<close> that
  an evaluation of these inputs holds.
\<close>

theorem calc_rh_matches_evaluator:
  "calc_rh a p q = calc_relative_humidity p q a \<and>
   (init st a s p q w d r = Inr ev \<longrightarrow> calc_rh a p q = Inr (rh ev))"
  by (auto simp: calc_rh_def calc_relative_humidity_def dest: init_fields(9))

theorem calc_rh_matches_evaluator_witness:
  "\<exists>ev. init example_statics (uniform 2 3 (Fin 0)) (uniform 2 3 (Fin 0)) (uniform 2 3 (Fin 87000))
       (uniform 2 3 (Fin 0.003)) (uniform 2 3 (Fin 2)) (uniform 2 3 (Fin 250)) 500 = Inr ev
     \<and> calc_rh (uniform 2 3 (Fin 0)) (uniform 2 3 (Fin 87000)) (uniform 2 3 (Fin 0.003)) = Inr (rh ev)"
proof -
  from init_example_total[of 500 "Fin 0" 2 3 "Fin 0" "Fin 0" "Fin 87000" "Fin 0.003" "Fin 2" "Fin 250"]
  obtain ev where ev: "init example_statics (uniform 2 3 (Fin 0)) (uniform 2 3 (Fin 0))
       (uniform 2 3 (Fin 87000)) (uniform 2 3 (Fin 0.003)) (uniform 2 3 (Fin 2))
       (uniform 2 3 (Fin 250)) 500 = Inr ev"
    by auto
  with calc_rh_matches_evaluator[of "uniform 2 3 (Fin 0)" "uniform 2 3 (Fin 87000)"
      "uniform 2 3 (Fin 0.003)" example_statics "uniform 2 3 (Fin 0)" "uniform 2 3 (Fin 2)"
      "uniform 2 3 (Fin 250)" 500 ev]
  show ?thesis by blast
qed

section \<open>Saturation vapor pressure\<close>

lemma finite_cases: "is_finite t \<Longrightarrow> t = Fin (val t) \<or> t = NZero"
  by (cases t) simp_all

lemma e_sat_cell_finite:
  assumes "is_finite t" "- 243.5 < val t"
  shows "e_sat_cell t = Fin (611.2 * exp (17.67 * val t / (243.5 + val t)))"
proof -
  from finite_cases[OF assms(1)] show ?thesis
  proof
    assume t: "t = Fin (val t)"
    have "e_sat_cell (Fin (val t)) = Fin (611.2 * exp (17.67 * val t / (243.5 + val t)))"
      using assms(2) by (simp add: e_sat_cell_def zero_of_def)
    with t show ?thesis by simp
  next
    assume "t = NZero"
    then show ?thesis by (simp add: e_sat_cell_def zero_of_def)
  qed
qed

section \<open>The stability correction\<close>

lemma finite_nonzero: "is_finite t \<Longrightarrow> \<not> is_zero t \<Longrightarrow> t = Fin (val t) \<and> val t \<noteq> 0"
  by (cases t) simp_all

lemma R_i_cell_finite:
  assumes "is_finite a" "\<not> is_zero a" "is_finite w" "\<not> is_zero w"
  shows "R_i_cell w a = Fin (2 * 10 * (1000 / 100) / (27.78 * val w)\<^sup>2)"
proof -
  from finite_nonzero[OF assms(1,2)] finite_nonzero[OF assms(3,4)]
  have a: "a = Fin (val a)" "val a \<noteq> 0" and w: "w = Fin (val w)" "val w \<noteq> 0" by simp_all
  have "R_i_cell (Fin (val w)) (Fin (val a)) = Fin (200 / (27.78 * val w)\<^sup>2)"
    unfolding R_i_cell_def c200 by (rule R_cell_finite[OF a(2) w(2)])
  with a(1) w(1) show ?thesis by simp
qed

lemma stable_finite:
  assumes "0 < r"
  shows "stable (Fin r) = Fin (1 / (1 + 4.7 * r)\<^sup>2)"
proof -
  have "1 + 4.7 * r \<noteq> 0" using assms by (simp add: add_pos_pos pos_add_strict less_imp_neq[THEN not_sym])
  then show ?thesis
    using assms by (simp add: stable_def fl_pow_Fin_2)
qed

text \<open>
  C1. In every cell, the stability correction \<^verbatim>\<open>zeta\<close> that the masked assignments
  build from the grids \<^verbatim>\<open>R_i\<close> and \<^verbatim>\<open>gamma\<close> is \<open>1 / (1 + 4.7 * R_i)\<^sup>2\<close> where
  \<open>R_i > 0\<close>, \<open>1 - 9.4 * R_i / (1 + gamma * |R_i| ** 0.5)\<close> where \<open>R_i < 0\<close>, and the
  zero of its initialisation where \<open>R_i = 0\<close>. This is the grid that
  \<^verbatim>\<open>calc_unstable_correction\<close> returns when \<^verbatim>\<open>R_i\<close> and \<^verbatim>\<open>gamma\<close> are its two
  locals, and \<^verbatim>\<open>gamma\<close> is then \<open>5.3 * 9.4 * d_h_e / wind * (Z_A / Z_0) ** 0.5\<close>.
\<close>

theorem zeta_branches:
  assumes "shape G = shape R" "i < nrows R" "j < ncols R"
  shows "\<exists>Z. assign_zeta G R = Inr Z \<and> shape Z = shape R \<and>
    (fl_greater (cell R i j) (Fin 0) \<longrightarrow>
       cell Z i j = fl_div (Fin 1) (fl_pow (fl_add (Fin 1) (fl_mul (Fin 4.7) (cell R i j))) (Fin 2))) \<and>
    (fl_less (cell R i j) (Fin 0) \<longrightarrow>
       cell Z i j = fl_sub (Fin 1)
         (fl_div (fl_mul (Fin 9.4) (cell R i j))
                 (fl_add (Fin 1) (fl_mul (cell G i j) (fl_pow (fl_abs (cell R i j)) (Fin 0.5)))))) \<and>
    (fl_eq (cell R i j) (Fin 0) \<longrightarrow> cell Z i j = Fin 0) \<and>
    (\<forall>D W A. calc_gamma D W = Inr G \<and> calc_R_i W A = Inr R \<longrightarrow>
       calc_unstable_correction D W A = Inr Z) \<and>
    (\<forall>D W. calc_gamma D W = Inr G \<and> shape D = shape R \<and> shape W = shape R \<longrightarrow>
       cell G i j = fl_mul (fl_div (fl_mul (fl_mul (Fin 5.3) (Fin 9.4)) (cell D i j)) (cell W i j))
                          (fl_pow (fl_div Z_A Z_0) (Fin 0.5)))"
proof -
  have b: "in_bounds G (gwhere (\<lambda>x. fl_less x (Fin 0)) R)"
    using assms(1) by (intro in_bounds_gwhere) (simp_all add: shape_def)
  let ?Z = "\<lparr>nrows = nrows R, ncols = ncols R,
         cell = (\<lambda>i j. if i < nrows R \<and> j < ncols R then zeta_cell (cell R i j) (cell G i j) else Fin 0)\<rparr>"
  have Z: "assign_zeta G R = Inr ?Z" by (rule assign_zeta_eq[OF b])
  have c: "cell ?Z i j = zeta_cell (cell R i j) (cell G i j)" using assms(2,3) by simp
  have z0: "fl_eq (cell R i j) (Fin 0) \<Longrightarrow> zeta_cell (cell R i j) (cell G i j) = Fin 0"
    by (cases "cell R i j") (simp_all add: zeta_cell_def fl_greater_def)
  have g: "cell G i j = gamma_cell (cell D i j) (cell W i j)"
    if "calc_gamma D W = Inr G" "shape D = shape R" "shape W = shape R" for D W
    using calc_gamma_cells[of D "nrows R" "ncols R" W] that assms(2,3)
    by (auto simp: cells_def shape_def)
  show ?thesis
    apply (rule exI[of _ ?Z])
    apply (simp only: Z c)
    apply (intro conjI)
         apply simp
        apply (simp add: shape_def)
       apply (simp add: zeta_cell_def stable_def)
      apply (auto simp: zeta_cell_def unstable_def dest: fl_sign_excl)[1]
     apply (simp add: z0)
    apply (simp add: calc_unstable_correction_def Z)
    apply (auto simp: g gamma_cell_def)
    done
qed

lemma example_R_i_simps [simp]:
  "nrows example_R_i = 1" "ncols example_R_i = 3" "shape example_R_i = (1, 3)"
  "cell example_R_i i j = (if j = 0 then Fin 1 else if j = 1 then Fin (- 1) else Fin 0)"
  by (simp_all add: example_R_i_def shape_def)

lemma fl_pow_one [simp]: "fl_pow (Fin 1) x = Fin 1"
  by (simp add: fl_pow_def)

theorem zeta_branches_witness:
  "\<exists>Z. assign_zeta (uniform 1 3 (Fin 2)) example_R_i = Inr Z \<and>
     cell Z 0 0 = Fin (1 / (1 + 4.7)\<^sup>2) \<and> cell Z 0 1 = Fin (1 + 9.4 / 3) \<and> cell Z 0 2 = Fin 0"
proof -
  have s: "shape (uniform 1 3 (Fin 2)) = shape example_R_i" by simp
  from zeta_branches[OF s, of 0 0]
  obtain Z where Z: "assign_zeta (uniform 1 3 (Fin 2)) example_R_i = Inr Z"
    and "fl_greater (cell example_R_i 0 0) (Fin 0) \<longrightarrow>
       cell Z 0 0 = fl_div (Fin 1) (fl_pow (fl_add (Fin 1) (fl_mul (Fin 4.7) (cell example_R_i 0 0))) (Fin 2))"
    by auto
  then have z0: "cell Z 0 0 = Fin (1 / (1 + 4.7)\<^sup>2)"
    by (simp add: fl_greater_def fl_pow_Fin_2)
  from zeta_branches[OF s, of 0 1] Z
  have "fl_less (cell example_R_i 0 1) (Fin 0) \<longrightarrow>
       cell Z 0 1 = fl_sub (Fin 1)
         (fl_div (fl_mul (Fin 9.4) (cell example_R_i 0 1))
                 (fl_add (Fin 1) (fl_mul (cell (uniform 1 3 (Fin 2)) 0 1)
                    (fl_pow (fl_abs (cell example_R_i 0 1)) (Fin 0.5)))))"
    by auto
  then have z1: "cell Z 0 1 = Fin (1 + 9.4 / 3)"
    by (simp add: fl_sub_def)
  from zeta_branches[OF s, of 0 2] Z
  have "fl_eq (cell example_R_i 0 2) (Fin 0) \<longrightarrow> cell Z 0 2 = Fin 0"
    by auto
  then have z2: "cell Z 0 2 = Fin 0"
    by simp
  from Z z0 z1 z2 show ?thesis by blast
qed





text \<open>
  C8, as amended. Two evaluations that differ in the air temperature grid only, both grids
  having the shape of the wind grid, compute the same exchange coefficient
  \<^verbatim>\<open>d_h_e\<close>, and in each of them the stability correction \<^verbatim>\<open>zeta\<close> of a cell is
  determined by the bulk Richardson number of that cell alone: it is the stable value
  \<open>1 / (1 + 4.7 * R_i) ** 2\<close> where \<open>R_i > 0\<close> and zero elsewhere. So the two evaluations
  have the same \<^verbatim>\<open>zeta\<close> in every cell where they compute the same \<open>R_i\<close>. Nothing is
  said of the two \<open>R_i\<close> being equal: the air temperature does not cancel out of
  \<open>R_i\<close> for every non-zero value.
\<close>

theorem zeta_depends_on_R_i_only:
  assumes "init st a1 s p q w d r = Inr ev1" "init st a2 s p q w d r = Inr ev2"
    and "shape a1 = shape w" "shape a2 = shape w" "i < nrows w" "j < ncols w"
  shows "d_h_e ev1 = d_h_e ev2 \<and>
    (\<exists>R1 R2. calc_R_i w a1 = Inr R1 \<and> calc_R_i w a2 = Inr R2 \<and>
       cell (zeta ev1) i j =
         (if fl_greater (cell R1 i j) (Fin 0)
          then fl_div (Fin 1) (fl_pow (fl_add (Fin 1) (fl_mul (Fin 4.7) (cell R1 i j))) (Fin 2))
          else Fin 0) \<and>
       cell (zeta ev2) i j =
         (if fl_greater (cell R2 i j) (Fin 0)
          then fl_div (Fin 1) (fl_pow (fl_add (Fin 1) (fl_mul (Fin 4.7) (cell R2 i j))) (Fin 2))
          else Fin 0) \<and>
       (cell R1 i j = cell R2 i j \<longrightarrow> cell (zeta ev1) i j = cell (zeta ev2) i j))"
proof -
  have sw: "shape w = (nrows w, ncols w)" by (simp add: shape_def)
  note s1 = assms(3)[unfolded sw] and s2 = assms(4)[unfolded sw]
  note f1 = init_fields[OF assms(1)] and f2 = init_fields[OF assms(2)]
  from f1(16) f2(16) have d: "d_h_e ev1 = d_h_e ev2" by simp
  from cells_Inr[OF calc_exchange_coefficient_cells[OF sw] f1(16)]
  have sd1: "shape (d_h_e ev1) = (nrows w, ncols w)" by simp
  from cells_Inr[OF calc_exchange_coefficient_cells[OF sw] f2(16)]
  have sd2: "shape (d_h_e ev2) = (nrows w, ncols w)" by simp
  from calc_R_i_cells[OF sw s1] assms(5,6) obtain R1 where
    R1: "calc_R_i w a1 = Inr R1" "cell R1 i j = R_i_cell (cell w i j) (cell a1 i j)"
    by (auto simp: cells_def)
  from calc_R_i_cells[OF sw s2] assms(5,6) obtain R2 where
    R2: "calc_R_i w a2 = Inr R2" "cell R2 i j = R_i_cell (cell w i j) (cell a2 i j)"
    by (auto simp: cells_def)
  from cells_Inr[OF calc_unstable_correction_cells[OF sd1 sw s1] f1(17)] assms(5,6)
  have z1: "cell (zeta ev1) i j = zeta_cell (R_i_cell (cell w i j) (cell a1 i j))
                               (gamma_cell (cell (d_h_e ev1) i j) (cell w i j))"
    by simp
  from cells_Inr[OF calc_unstable_correction_cells[OF sd2 sw s2] f2(17)] assms(5,6)
  have z2: "cell (zeta ev2) i j = zeta_cell (R_i_cell (cell w i j) (cell a2 i j))
                               (gamma_cell (cell (d_h_e ev2) i j) (cell w i j))"
    by simp
  have Z1: "cell (zeta ev1) i j =
      (if fl_greater (cell R1 i j) (Fin 0) then stable (cell R1 i j) else Fin 0)"
    using R_i_cell_not_neg[of "cell w i j" "cell a1 i j"] unfolding z1 R1(2)
    by (simp add: zeta_cell_def)
  have Z2: "cell (zeta ev2) i j =
      (if fl_greater (cell R2 i j) (Fin 0) then stable (cell R2 i j) else Fin 0)"
    using R_i_cell_not_neg[of "cell w i j" "cell a2 i j"] unfolding z2 R2(2)
    by (simp add: zeta_cell_def)
  have eq: "cell R1 i j = cell R2 i j \<longrightarrow> cell (zeta ev1) i j = cell (zeta ev2) i j"
    by (simp add: Z1 Z2)
  show ?thesis
    using d R1(1) R2(1) Z1[unfolded stable_def] Z2[unfolded stable_def] eq by blast
qed

theorem zeta_depends_on_R_i_only_witness:
  "\<exists>ev1 ev2.
     init example_statics (uniform 2 2 (Fin 5)) (uniform 2 2 (Fin (- 1))) (uniform 2 2 (Fin 87000))
       (uniform 2 2 (Fin 0.003)) (uniform 2 2 (Fin 2)) (uniform 2 2 (Fin 250)) 500 = Inr ev1 \<and>
     init example_statics (uniform 2 2 (Fin (- 3))) (uniform 2 2 (Fin (- 1))) (uniform 2 2 (Fin 87000))
       (uniform 2 2 (Fin 0.003)) (uniform 2 2 (Fin 2)) (uniform 2 2 (Fin 250)) 500 = Inr ev2 \<and>
     d_h_e ev1 = d_h_e ev2 \<and> cell (zeta ev1) 1 1 = cell (zeta ev2) 1 1"
proof -
  from init_example_total[of 500 "Fin 0" 2 2 "Fin 5" "Fin (- 1)" "Fin 87000" "Fin 0.003" "Fin 2" "Fin 250"]
  obtain ev1 where e1: "init example_statics (uniform 2 2 (Fin 5)) (uniform 2 2 (Fin (- 1)))
       (uniform 2 2 (Fin 87000)) (uniform 2 2 (Fin 0.003)) (uniform 2 2 (Fin 2))
       (uniform 2 2 (Fin 250)) 500 = Inr ev1"
    by auto
  from init_example_total[of 500 "Fin 0" 2 2 "Fin (- 3)" "Fin (- 1)" "Fin 87000" "Fin 0.003" "Fin 2" "Fin 250"]
  obtain ev2 where e2: "init example_statics (uniform 2 2 (Fin (- 3))) (uniform 2 2 (Fin (- 1)))
       (uniform 2 2 (Fin 87000)) (uniform 2 2 (Fin 0.003)) (uniform 2 2 (Fin 2))
       (uniform 2 2 (Fin 250)) 500 = Inr ev2"
    by auto
  from zeta_depends_on_R_i_only[OF e1 e2, of 1 1] obtain R1 R2 where
    d: "d_h_e ev1 = d_h_e ev2"
    and R1: "calc_R_i (uniform 2 2 (Fin 2)) (uniform 2 2 (Fin 5)) = Inr R1"
    and R2: "calc_R_i (uniform 2 2 (Fin 2)) (uniform 2 2 (Fin (- 3))) = Inr R2"
    and z: "cell R1 1 1 = cell R2 1 1 \<longrightarrow> cell (zeta ev1) 1 1 = cell (zeta ev2) 1 1"
    by auto
  from cells_Inr[OF calc_R_i_cells[of "uniform 2 2 (Fin 2)" 2 2 "uniform 2 2 (Fin 5)"] R1]
  have r1: "cell R1 1 1 = R_i_cell (Fin 2) (Fin 5)" by simp
  from cells_Inr[OF calc_R_i_cells[of "uniform 2 2 (Fin 2)" 2 2 "uniform 2 2 (Fin (- 3))"] R2]
  have r2: "cell R2 1 1 = R_i_cell (Fin 2) (Fin (- 3))" by simp
  have "cell R1 1 1 = cell R2 1 1"
    unfolding r1 r2 by (simp add: R_i_cell_finite)
  with z d e1 e2 show ?thesis by blast
qed

lemma R_i_cell_infinite_air: "R_i_cell (Fin 2) PInf = NaN"
  by (simp add: R_i_cell_def Z_A_def fl_pow_Fin_2 inf_of_def)

theorem zeta_air_tmp_counterexample:
  "\<not> is_zero (cell (uniform 1 1 PInf) 0 0) \<and> \<not> is_zero (cell (uniform 1 1 (Fin 5)) 0 0) \<and>
   \<not> isl (init example_statics (uniform 1 1 PInf) (uniform 1 1 (Fin 0)) (uniform 1 1 (Fin 87000))
        (uniform 1 1 (Fin 0.003)) (uniform 1 1 (Fin 2)) (uniform 1 1 (Fin 250)) 500) \<and>
   \<not> isl (init example_statics (uniform 1 1 (Fin 5)) (uniform 1 1 (Fin 0)) (uniform 1 1 (Fin 87000))
        (uniform 1 1 (Fin 0.003)) (uniform 1 1 (Fin 2)) (uniform 1 1 (Fin 250)) 500) \<and>
   cell (zeta (projr (init example_statics (uniform 1 1 PInf) (uniform 1 1 (Fin 0))
        (uniform 1 1 (Fin 87000)) (uniform 1 1 (Fin 0.003)) (uniform 1 1 (Fin 2))
        (uniform 1 1 (Fin 250)) 500))) 0 0 = Fin 0 \<and>
   fl_greater (cell (zeta (projr (init example_statics (uniform 1 1 (Fin 5)) (uniform 1 1 (Fin 0))
        (uniform 1 1 (Fin 87000)) (uniform 1 1 (Fin 0.003)) (uniform 1 1 (Fin 2))
        (uniform 1 1 (Fin 250)) 500))) 0 0) (Fin 0) \<and>
   cell (zeta (projr (init example_statics (uniform 1 1 PInf) (uniform 1 1 (Fin 0))
        (uniform 1 1 (Fin 87000)) (uniform 1 1 (Fin 0.003)) (uniform 1 1 (Fin 2))
        (uniform 1 1 (Fin 250)) 500))) 0 0
   \<noteq> cell (zeta (projr (init example_statics (uniform 1 1 (Fin 5)) (uniform 1 1 (Fin 0))
        (uniform 1 1 (Fin 87000)) (uniform 1 1 (Fin 0.003)) (uniform 1 1 (Fin 2))
        (uniform 1 1 (Fin 250)) 500))) 0 0"
proof -
  from init_example_total[of 500 "Fin 0" 1 1 PInf "Fin 0" "Fin 87000" "Fin 0.003" "Fin 2" "Fin 250"]
  obtain ev1 where e1: "init example_statics (uniform 1 1 PInf) (uniform 1 1 (Fin 0))
       (uniform 1 1 (Fin 87000)) (uniform 1 1 (Fin 0.003)) (uniform 1 1 (Fin 2))
       (uniform 1 1 (Fin 250)) 500 = Inr ev1"
    by auto
  from init_example_total[of 500 "Fin 0" 1 1 "Fin 5" "Fin 0" "Fin 87000" "Fin 0.003" "Fin 2" "Fin 250"]
  obtain ev2 where e2: "init example_statics (uniform 1 1 (Fin 5)) (uniform 1 1 (Fin 0))
       (uniform 1 1 (Fin 87000)) (uniform 1 1 (Fin 0.003)) (uniform 1 1 (Fin 2))
       (uniform 1 1 (Fin 250)) 500 = Inr ev2"
    by auto
  note f1 = init_fields[OF e1] and f2 = init_fields[OF e2]
  from cells_Inr[OF calc_exchange_coefficient_cells[of "uniform 1 1 (Fin 2)" 1 1] f1(16)]
  have sd1: "shape (d_h_e ev1) = (1, 1)" by simp
  from cells_Inr[OF calc_exchange_coefficient_cells[of "uniform 1 1 (Fin 2)" 1 1] f2(16)]
  have sd2: "shape (d_h_e ev2) = (1, 1)" by simp
  from cells_Inr[OF calc_unstable_correction_cells[OF sd1, of "uniform 1 1 (Fin 2)" "uniform 1 1 PInf"] f1(17)]
  have z1: "cell (zeta ev1) 0 0 = Fin 0"
    by (simp add: R_i_cell_infinite_air zeta_cell_def fl_greater_def)
  define r :: real where "r = 2 * 10 * (1000 / 100) / (27.78 * 2)\<^sup>2"
  have pos: "0 < r" by (simp add: r_def)
  have R: "R_i_cell (Fin 2) (Fin 5) = Fin r"
    unfolding r_def by (simp add: R_i_cell_finite)
  from cells_Inr[OF calc_unstable_correction_cells[OF sd2, of "uniform 1 1 (Fin 2)" "uniform 1 1 (Fin 5)"] f2(17)]
  have "cell (zeta ev2) 0 0 = stable (Fin r)"
    using pos by (simp add: R zeta_cell_def fl_greater_def)
  then have z2: "cell (zeta ev2) 0 0 = Fin (1 / (1 + 4.7 * r)\<^sup>2)"
    by (simp only: stable_finite[OF pos])
  have nz: "0 < 1 / (1 + 4.7 * r)\<^sup>2"
    using pos by (simp add: add_pos_pos)
  show ?thesis
    unfolding e1 e2 sum.sel z1 z2 using nz by (simp add: fl_greater_def)
qed

section \<open>Emissivity and longwave radiation\<close>



lemma weighted_cell_zero_canopy:
  assumes "is_zero c" "e = Fin x" "x \<noteq> 0"
  shows "weighted_cell c e = e"
  using assms by (cases c) (simp_all add: weighted_cell_def fl_sub_def zero_of_def)

text \<open>
  C4, as amended. In a cell where the canopy fraction \<^verbatim>\<open>F_c\<close> is zero and the
  atmospheric emissivity is a non-zero finite number, the weighted emissivity is the
  atmospheric emissivity, and the canopy-corrected downwelling longwave \<^verbatim>\<open>CDLW\<close> is
  \<open>dlw * atm_emissivity / atm_emissivity\<close>, the product taken first; it is the input
  \<^verbatim>\<open>dlw\<close> as far as this product and this quotient are exact.
\<close>

theorem zero_canopy_emissivity:
  assumes "init st a s p q w d r = Inr ev"
    and "amr_forest_density st r = Some g"
    and "shape g = (n, m)" "shape d = (n, m)" "shape a = (n, m)" "i < n" "j < m"
    and "is_zero (cell (F_c ev) i j)"
    and "is_finite (cell (atm_emissivity ev) i j)" "\<not> is_zero (cell (atm_emissivity ev) i j)"
  shows "cell (weighted_emissivity ev) i j = cell (atm_emissivity ev) i j \<and>
         cell (CDLW ev) i j =
           fl_div (fl_mul (cell d i j) (cell (atm_emissivity ev) i j)) (cell (atm_emissivity ev) i j)"
proof -
  note f = init_fields[OF assms(1)]
  from cells_Inr[OF load_F_c_cells[OF assms(2,3)] f(8)]
  have c: "shape (F_c ev) = (n, m)" by simp
  from cells_Inr[OF calc_atm_emissivity_cells[OF assms(4,5)] f(18)] assms(6,7)
  have e: "shape (atm_emissivity ev) = (n, m)" by simp
  from cells_Inr[OF calc_weighted_emissivity_cells[OF c e] f(19)] assms(6,7)
  have we: "shape (weighted_emissivity ev) = (n, m)"
    "cell (weighted_emissivity ev) i j
       = weighted_cell (cell (F_c ev) i j) (cell (atm_emissivity ev) i j)" by simp_all
  from cells_Inr[OF calc_DLW_cells[OF assms(4) we(1) e] f(22)] assms(6,7)
  have cd: "cell (CDLW ev) i j
       = CDLW_cell (cell d i j) (cell (weighted_emissivity ev) i j) (cell (atm_emissivity ev) i j)"
    by simp
  from finite_nonzero[OF assms(9,10)] obtain x where
    x: "cell (atm_emissivity ev) i j = Fin x" "x \<noteq> 0" by blast
  have 1: "cell (weighted_emissivity ev) i j = cell (atm_emissivity ev) i j"
    unfolding we(2) by (rule weighted_cell_zero_canopy[OF assms(8) x])
  have 2: "cell (CDLW ev) i j =
      fl_div (fl_mul (cell d i j) (cell (atm_emissivity ev) i j)) (cell (atm_emissivity ev) i j)"
    unfolding cd 1 CDLW_cell_def by (rule refl)
  from 1 2 show ?thesis by simp
qed

lemma fl_pow_pos: "0 < x \<Longrightarrow> x \<noteq> 1 \<Longrightarrow> y \<noteq> 0 \<Longrightarrow> fl_pow (Fin x) (Fin y) = Fin (x powr y)"
  by (simp add: fl_pow_def)

lemma ten_powr_m8: "(10::real) powr (- 8) = 1 / 10 ^ 8"
  by (simp add: powr_minus_divide)

lemma ulw_value:
  "(0.98 * 5.67 * 10 powr (- 8) * 273.16 ^ 4 :: real) = 0.98 * 5.67 * 273.16 ^ 4 / 10 ^ 8"
  by (simp add: ten_powr_m8)

lemma ulw_bounds:
  "(309.36 :: real) < 0.98 * 5.67 * 10 powr (- 8) * 273.16 ^ 4"
  "(0.98 * 5.67 * 10 powr (- 8) * 273.16 ^ 4 :: real) < 309.38"
  unfolding ulw_value by (simp_all add: power4_eq_xxxx)

lemma ULW_cell_zero: "ULW_cell (Fin 0) = Fin (0.98 * 5.67 * 10 powr (- 8) * 273.16 ^ 4)"
  by (simp add: ULW_cell_def fl_pow_pos fl_pow_Fin_4)

lemma atm_cell_finite:
  assumes "- 273.16 < x" "y \<noteq> 0"
  shows "atm_cell (Fin y) (Fin x) = Fin (y / ((x + 273.16) ^ 4 * 5.67 * 10 powr (- 8)))"
  using assms by (simp add: atm_cell_def fl_pow_pos fl_pow_Fin_4)

theorem zero_canopy_emissivity_witness:
  "\<exists>ev. init example_statics (uniform 1 1 (Fin 0)) (uniform 1 1 (Fin 0)) (uniform 1 1 (Fin 87000))
       (uniform 1 1 (Fin 0.003)) (uniform 1 1 (Fin 2)) (uniform 1 1 (Fin 250)) 500 = Inr ev \<and>
     cell (weighted_emissivity ev) 0 0 = cell (atm_emissivity ev) 0 0 \<and>
     cell (CDLW ev) 0 0 =
       fl_div (fl_mul (Fin 250) (cell (atm_emissivity ev) 0 0)) (cell (atm_emissivity ev) 0 0)"
proof -
  from init_example_total[of 500 "Fin 0" 1 1 "Fin 0" "Fin 0" "Fin 87000" "Fin 0.003" "Fin 2" "Fin 250"]
  obtain ev where ev: "init example_statics (uniform 1 1 (Fin 0)) (uniform 1 1 (Fin 0))
       (uniform 1 1 (Fin 87000)) (uniform 1 1 (Fin 0.003)) (uniform 1 1 (Fin 2))
       (uniform 1 1 (Fin 250)) 500 = Inr ev"
    by auto
  note f = init_fields[OF ev]
  have g: "amr_forest_density example_statics 500 = Some (uniform 1 1 (Fin 0))" by simp
  from cells_Inr[OF load_F_c_cells[OF g, of 1 1] f(8)]
  have c: "is_zero (cell (F_c ev) 0 0)" by (simp add: F_c_cell_def zero_of_def)
  from cells_Inr[OF calc_atm_emissivity_cells[of "uniform 1 1 (Fin 250)" 1 1 "uniform 1 1 (Fin 0)"] f(18)]
  have e: "is_finite (cell (atm_emissivity ev) 0 0)" "\<not> is_zero (cell (atm_emissivity ev) 0 0)"
    by (simp_all add: atm_cell_finite)
  from zero_canopy_emissivity[OF ev g _ _ _ _ _ c e, of 1 1]
  show ?thesis using ev by simp
qed

lemma atm_cell_absolute_zero: "x = - 273.16 \<Longrightarrow> atm_cell (Fin 250) (Fin x) = PInf"
  by (simp add: atm_cell_def fl_pow_def fl_pow_pos zero_of_def inf_of_def)

theorem zero_canopy_roundtrip_counterexample:
  "\<not> isl (init example_statics (uniform 1 1 (Fin (- 273.16))) (uniform 1 1 (Fin 0))
        (uniform 1 1 (Fin 87000)) (uniform 1 1 (Fin 0.003)) (uniform 1 1 (Fin 2))
        (uniform 1 1 (Fin 250)) 500) \<and>
   is_zero (cell (F_c (projr (init example_statics (uniform 1 1 (Fin (- 273.16)))
        (uniform 1 1 (Fin 0)) (uniform 1 1 (Fin 87000)) (uniform 1 1 (Fin 0.003))
        (uniform 1 1 (Fin 2)) (uniform 1 1 (Fin 250)) 500))) 0 0) \<and>
   \<not> is_zero (cell (atm_emissivity (projr (init example_statics (uniform 1 1 (Fin (- 273.16)))
        (uniform 1 1 (Fin 0)) (uniform 1 1 (Fin 87000)) (uniform 1 1 (Fin 0.003))
        (uniform 1 1 (Fin 2)) (uniform 1 1 (Fin 250)) 500))) 0 0) \<and>
   cell (CDLW (projr (init example_statics (uniform 1 1 (Fin (- 273.16)))
        (uniform 1 1 (Fin 0)) (uniform 1 1 (Fin 87000)) (uniform 1 1 (Fin 0.003))
        (uniform 1 1 (Fin 2)) (uniform 1 1 (Fin 250)) 500))) 0 0 = NaN \<and>
   \<not> fl_eq (cell (CDLW (projr (init example_statics (uniform 1 1 (Fin (- 273.16)))
        (uniform 1 1 (Fin 0)) (uniform 1 1 (Fin 87000)) (uniform 1 1 (Fin 0.003))
        (uniform 1 1 (Fin 2)) (uniform 1 1 (Fin 250)) 500))) 0 0)
      (cell (uniform 1 1 (Fin 250)) 0 0)"
proof -
  from init_example_total[of 500 "Fin 0" 1 1 "Fin (- 273.16)" "Fin 0" "Fin 87000" "Fin 0.003" "Fin 2" "Fin 250"]
  obtain ev where ev: "init example_statics (uniform 1 1 (Fin (- 273.16))) (uniform 1 1 (Fin 0))
       (uniform 1 1 (Fin 87000)) (uniform 1 1 (Fin 0.003)) (uniform 1 1 (Fin 2))
       (uniform 1 1 (Fin 250)) 500 = Inr ev"
    by auto
  note f = init_fields[OF ev]
  have g: "amr_forest_density example_statics 500 = Some (uniform 1 1 (Fin 0))" by simp
  from cells_Inr[OF load_F_c_cells[OF g, of 1 1] f(8)]
  have c: "shape (F_c ev) = (1, 1)" "cell (F_c ev) 0 0 = Fin 0"
    by (simp_all add: F_c_cell_def zero_of_def)
  from cells_Inr[OF calc_atm_emissivity_cells[of "uniform 1 1 (Fin 250)" 1 1
        "uniform 1 1 (Fin (- 273.16))"] f(18)]
  have e: "shape (atm_emissivity ev) = (1, 1)" "cell (atm_emissivity ev) 0 0 = PInf"
    by (simp_all add: atm_cell_absolute_zero)
  from cells_Inr[OF calc_weighted_emissivity_cells[OF c(1) e(1)] f(19)]
  have we: "shape (weighted_emissivity ev) = (1, 1)" "cell (weighted_emissivity ev) 0 0 = PInf"
    by (simp_all add: c(2) e(2) weighted_cell_def fl_sub_def inf_of_def zero_of_def)
  from cells_Inr[OF calc_DLW_cells[OF _ we(1) e(1), of "uniform 1 1 (Fin 250)"] f(22)]
  have cd: "cell (CDLW ev) 0 0 = NaN"
    by (simp add: we(2) e(2) CDLW_cell_def inf_of_def)
  show ?thesis
    unfolding ev sum.sel by (simp add: c(2) e(2) cd)
qed

section \<open>The uniform end-to-end scenario\<close>

lemma fin_mul: "is_finite x \<Longrightarrow> is_finite y \<Longrightarrow> is_finite (fl_mul x y)"
  by (cases x; cases y) (simp_all add: zero_of_def)

lemma fin_div: "is_finite x \<Longrightarrow> is_finite y \<Longrightarrow> \<not> is_zero y \<Longrightarrow> is_finite (fl_div x y)"
  by (cases x; cases y) (simp_all add: zero_of_def)

lemma fin_add: "is_finite x \<Longrightarrow> is_finite y \<Longrightarrow> is_finite (fl_add x y)"
  by (cases x; cases y) simp_all

lemma fin_neg: "is_finite x \<Longrightarrow> is_finite (fl_neg x)"
  by (cases x) simp_all

lemma fin_sub: "is_finite x \<Longrightarrow> is_finite y \<Longrightarrow> is_finite (fl_sub x y)"
  by (simp add: fl_sub_def fin_add fin_neg)

lemma zero_mul: "is_zero x \<Longrightarrow> is_finite y \<Longrightarrow> is_zero (fl_mul x y)"
  by (cases x; cases y) (simp_all add: zero_of_def)

lemma zero_div: "is_zero x \<Longrightarrow> is_finite y \<Longrightarrow> \<not> is_zero y \<Longrightarrow> is_zero (fl_div x y)"
  by (cases x; cases y) (simp_all add: zero_of_def)

lemma zero_finite: "is_zero x \<Longrightarrow> is_finite x"
  by (cases x) simp_all

lemma nz_mul: "is_finite x \<Longrightarrow> \<not> is_zero x \<Longrightarrow> is_finite y \<Longrightarrow> \<not> is_zero y \<Longrightarrow> \<not> is_zero (fl_mul x y)"
  by (cases x; cases y) (simp_all add: zero_of_def)

lemma wind_scale_val: "wind_scale = Fin (0.4\<^sup>2 / (ln 100000)\<^sup>2)"
proof -
  have "ln (100000::real) \<noteq> 0" using ln_gt_zero[of "100000::real"] by simp
  then show ?thesis
    by (simp add: wind_scale_def K_def Z_A_def Z_0_def fl_pow_Fin_2)
qed

lemma LH_cell_zero:
  assumes "is_zero z" "is_finite f" "is_finite e" "is_finite s"
  shows "is_zero (LH_cell z f e s)"
  unfolding LH_cell_def
  by (intro zero_mul zero_div assms fin_sub) (simp_all add: L_S_def RHO_W_def PA_2_MB_def)

lemma SH_cell_zero:
  assumes "is_zero z" "is_finite pa" "is_finite f" "is_finite a" "is_finite s"
  shows "is_zero (SH_cell pa z f a s)"
  unfolding SH_cell_def
  by (intro zero_mul zero_div assms fin_sub) (simp_all add: RHO_W_def)

lemma b_cell_finite:
  assumes "is_finite pa" "\<not> is_zero pa" "is_finite rho"
  shows "is_finite (b_cell pa rho)"
  unfolding b_cell_def wind_scale_val
  by (intro fin_mul fin_div nz_mul assms) (simp_all add: RHO_W_def fl_pow_pos)

lemma zeta_cell_calm_air: "zeta_cell (R_i_cell (Fin 2) (Fin 0)) x = Fin 0"
  by (simp add: R_i_cell_def Z_A_def zeta_cell_def fl_greater_def fl_pow_Fin_2 zero_of_def)

lemma scenario_cells:
  assumes pa: "is_finite pa" "\<not> is_zero pa"
  shows "is_zero (LH_cell (zeta_cell (R_i_cell (Fin 2) (Fin 0)) x)
            (fu_cell (b_cell pa (rho_a_cell (Fin 87000) (Fin 0))) (Fin 2))
            (e_a_cell (rh_cell (Fin 87000) (Fin 0.003) (Fin 0)) (e_sat_cell (Fin 0)))
            (e_sat_cell (Fin 0)))"
    and "is_zero (SH_cell pa (zeta_cell (R_i_cell (Fin 2) (Fin 0)) x)
            (fu_cell (b_cell pa (rho_a_cell (Fin 87000) (Fin 0))) (Fin 2)) (Fin 0) (Fin 0))"
proof -
  have rho: "is_finite (rho_a_cell (Fin 87000) (Fin 0))"
    by (simp add: rho_a_cell_def R_SPECIFIC_def)
  have fu: "is_finite (fu_cell (b_cell pa (rho_a_cell (Fin 87000) (Fin 0))) (Fin 2))"
    unfolding fu_cell_def by (intro fin_mul b_cell_finite pa rho) simp_all
  have es: "e_sat_cell (Fin 0) = Fin 611.2"
    using e_sat_cell_finite[of "Fin 0"] by simp
  have rh: "is_finite (rh_cell (Fin 87000) (Fin 0.003) (Fin 0))"
    by (simp add: rh_cell_def zero_of_def)
  have ea: "is_finite (e_a_cell (rh_cell (Fin 87000) (Fin 0.003) (Fin 0)) (e_sat_cell (Fin 0)))"
    unfolding e_a_cell_def es by (intro fin_mul fin_div rh) simp_all
  show "is_zero (LH_cell (zeta_cell (R_i_cell (Fin 2) (Fin 0)) x)
            (fu_cell (b_cell pa (rho_a_cell (Fin 87000) (Fin 0))) (Fin 2))
            (e_a_cell (rh_cell (Fin 87000) (Fin 0.003) (Fin 0)) (e_sat_cell (Fin 0)))
            (e_sat_cell (Fin 0)))"
    by (rule LH_cell_zero[OF _ fu ea]) (simp_all add: zeta_cell_calm_air es)
  show "is_zero (SH_cell pa (zeta_cell (R_i_cell (Fin 2) (Fin 0)) x)
            (fu_cell (b_cell pa (rho_a_cell (Fin 87000) (Fin 0))) (Fin 2)) (Fin 0) (Fin 0))"
    by (rule SH_cell_zero[OF _ pa(1) fu]) (simp_all add: zeta_cell_calm_air)
qed

text \<open>
  C2, as amended. In the uniform scenario (air and snow at 0 degrees, 87000 Pa, specific
  humidity 0.003, wind 2 m/s, downwelling longwave 250, no canopy, resolution
  500, over a standard-atmosphere grid of non-zero numbers) the evaluation returns, and in
  every cell \<^verbatim>\<open>LH\<close> and \<^verbatim>\<open>SH\<close> are finite and zero and \<^verbatim>\<open>ULW\<close> is
  \<open>0.98 * 5.67e-8 * 273.16\<^sup>4\<close>, which lies between 309.36 and 309.38. Every
  evaluation whose snow temperature is 0 degrees has this \<^verbatim>\<open>ULW\<close>, whatever its other
  inputs.
\<close>

theorem uniform_scenario:
  assumes "amr_forest_density st 500 = Some (uniform n m (Fin 0))"
    and "shape (P_A_500 st) = (n, m)"
    and "\<forall>i<n. \<forall>j<m. is_finite (cell (P_A_500 st) i j) \<and> \<not> is_zero (cell (P_A_500 st) i j)"
  shows "\<exists>ev. init st (uniform n m (Fin 0)) (uniform n m (Fin 0)) (uniform n m (Fin 87000))
        (uniform n m (Fin 0.003)) (uniform n m (Fin 2)) (uniform n m (Fin 250)) 500 = Inr ev \<and>
      (\<forall>i<n. \<forall>j<m.
         is_finite (cell (LH ev) i j) \<and> is_zero (cell (LH ev) i j) \<and>
         is_finite (cell (SH ev) i j) \<and> is_zero (cell (SH ev) i j) \<and>
         cell (ULW ev) i j = Fin (0.98 * 5.67 * 10 powr (- 8) * 273.16 ^ 4) \<and>
         309.36 < val (cell (ULW ev) i j) \<and> val (cell (ULW ev) i j) < 309.38) \<and>
      (\<forall>st' a p q w d r ev'.
         init st' a (uniform n m (Fin 0)) p q w d r = Inr ev' \<longrightarrow>
         (\<forall>i<n. \<forall>j<m. cell (ULW ev') i j = cell (ULW ev) i j))"
proof -
  have pa: "shape (P_A_of st 500) = (n, m)" using assms(2) by (simp add: P_A_of_def)
  have "\<exists>ev. init st (uniform n m (Fin 0)) (uniform n m (Fin 0)) (uniform n m (Fin 87000))
        (uniform n m (Fin 0.003)) (uniform n m (Fin 2)) (uniform n m (Fin 250)) 500 = Inr ev"
    using pa by (intro init_total[OF assms(1), where n = n and m = m]) (simp_all add: shape_def)
  then obtain ev where ev: "init st (uniform n m (Fin 0)) (uniform n m (Fin 0))
        (uniform n m (Fin 87000)) (uniform n m (Fin 0.003)) (uniform n m (Fin 2))
        (uniform n m (Fin 250)) 500 = Inr ev"
    by blast
  note c = init_cells[OF ev assms(1) shape_uniform(1) pa shape_uniform(1) shape_uniform(1)
      shape_uniform(1) shape_uniform(1) shape_uniform(1) shape_uniform(1)]
  have ulw: "cell (ULW ev') i j = Fin (0.98 * 5.67 * 10 powr (- 8) * 273.16 ^ 4)"
    if "init st' a (uniform n m (Fin 0)) p q w d r = Inr ev'" "i < n" "j < m"
    for st' a p q w d r ev' i j
    using cells_Inr[OF calc_ULW_cells[of "uniform n m (Fin 0)" n m] init_fields(23)[OF that(1)]] that(2,3)
    by (simp add: ULW_cell_zero)
  have main: "is_finite (cell (LH ev) i j) \<and> is_zero (cell (LH ev) i j) \<and>
         is_finite (cell (SH ev) i j) \<and> is_zero (cell (SH ev) i j) \<and>
         cell (ULW ev) i j = Fin (0.98 * 5.67 * 10 powr (- 8) * 273.16 ^ 4) \<and>
         309.36 < val (cell (ULW ev) i j) \<and> val (cell (ULW ev) i j) < 309.38"
    if ij: "i < n" "j < m" for i j
  proof -
    from assms(3) ij have p: "is_finite (cell (P_A_of st 500) i j)" "\<not> is_zero (cell (P_A_of st 500) i j)"
      by (simp_all add: P_A_of_def)
    have lh: "is_zero (cell (LH ev) i j)"
      using scenario_cells(1)[OF p] ij by (simp add: c)
    have sh: "is_zero (cell (SH ev) i j)"
      using scenario_cells(2)[OF p] ij by (simp add: c)
    show ?thesis
      using lh sh ulw[OF ev ij] ulw_bounds by (simp add: zero_finite)
  qed
  show ?thesis
    apply (rule exI[of _ ev])
    using ev main ulw by simp
qed

lemma ULW_snow_zero:
  assumes "init st a (uniform n m (Fin 0)) p q w d r = Inr ev" "i < n" "j < m"
  shows "cell (ULW ev) i j = Fin (0.98 * 5.67 * 10 powr (- 8) * 273.16 ^ 4)"
  using cells_Inr[OF calc_ULW_cells[of "uniform n m (Fin 0)" n m] init_fields(23)[OF assms(1)]]
    assms(2,3)
  by (simp add: ULW_cell_zero)

theorem uniform_scenario_witness:
  "\<exists>ev. init example_statics (uniform 1 1 (Fin 0)) (uniform 1 1 (Fin 0)) (uniform 1 1 (Fin 87000))
        (uniform 1 1 (Fin 0.003)) (uniform 1 1 (Fin 2)) (uniform 1 1 (Fin 250)) 500 = Inr ev \<and>
      is_zero (cell (LH ev) 0 0) \<and> is_zero (cell (SH ev) 0 0) \<and>
      cell (ULW ev) 0 0 = Fin (0.98 * 5.67 * 10 powr (- 8) * 273.16 ^ 4) \<and>
      309.36 < val (cell (ULW ev) 0 0) \<and> val (cell (ULW ev) 0 0) < 309.38"
  using uniform_scenario[of example_statics 1 1] by auto

theorem uniform_scenario_ULW_counterexample:
  "\<not> isl (init example_statics (uniform 1 1 (Fin 0)) (uniform 1 1 (Fin 0)) (uniform 1 1 (Fin 87000))
        (uniform 1 1 (Fin 0.003)) (uniform 1 1 (Fin 2)) (uniform 1 1 (Fin 250)) 500) \<and>
   \<not> \<bar>val (cell (ULW (projr (init example_statics (uniform 1 1 (Fin 0)) (uniform 1 1 (Fin 0))
        (uniform 1 1 (Fin 87000)) (uniform 1 1 (Fin 0.003)) (uniform 1 1 (Fin 2))
        (uniform 1 1 (Fin 250)) 500))) 0 0) - 305.5\<bar> < 3.8"
proof -
  from init_example_total[of 500 "Fin 0" 1 1 "Fin 0" "Fin 0" "Fin 87000" "Fin 0.003" "Fin 2" "Fin 250"]
  obtain ev where ev: "init example_statics (uniform 1 1 (Fin 0)) (uniform 1 1 (Fin 0))
       (uniform 1 1 (Fin 87000)) (uniform 1 1 (Fin 0.003)) (uniform 1 1 (Fin 2))
       (uniform 1 1 (Fin 250)) 500 = Inr ev"
    by auto
  have "cell (ULW ev) 0 0 = Fin (0.98 * 5.67 * 10 powr (- 8) * 273.16 ^ 4)"
    by (rule ULW_snow_zero[OF ev]) simp_all
  then have "309.36 < val (cell (ULW ev) 0 0)"
    using ulw_bounds(1) by simp
  then show ?thesis
    unfolding ev by simp
qed

section \<open>The resolution switch\<close>





lemma fl_sub_Fin [simp]: "fl_sub (Fin x) (Fin y) = Fin (x - y)"
  by (simp add: fl_sub_def)














section \<open>Exceptions of the constructor\<close>

lemma lift2_err: "lift2 f x y = Inl e \<Longrightarrow> x = Inl e \<or> y = Inl e \<or> e = ValueError"
  by (cases x; cases y) (auto simp: lift2_def broadcast2_def split: option.splits)

lemma lift1_err: "lift1 f x = Inl e \<Longrightarrow> x = Inl e"
  by (cases x) (auto simp: lift1_def)

lemma leaf_err [simp]: "arr g \<noteq> Inl e" "sc x \<noteq> Inl e" "num y \<noteq> Inl e"
  by (simp_all add: arr_def sc_def num_def)

lemma rbind_err: "rbind r k = Inl e \<Longrightarrow> r = Inl e \<or> (\<exists>x. r = Inr x \<and> k x = Inl e)"
  by (cases r) simp_all

lemma calc_errs:
  "calc_relative_humidity p q a = Inl e \<Longrightarrow> e = ValueError"
  "calc_air_saturate_vapor_pressure a = Inl e \<Longrightarrow> e = ValueError"
  "calc_snow_saturate_vapor_pressure s = Inl e \<Longrightarrow> e = ValueError"
  "calc_air_vapor_pressure h x = Inl e \<Longrightarrow> e = ValueError"
  "calc_air_density p a = Inl e \<Longrightarrow> e = ValueError"
  "calc_b st r rho = Inl e \<Longrightarrow> e = ValueError"
  "calc_FU c w = Inl e \<Longrightarrow> e = ValueError"
  "calc_exchange_coefficient w = Inl e \<Longrightarrow> e = ValueError"
  "calc_gamma dh w = Inl e \<Longrightarrow> e = ValueError"
  "calc_R_i w a = Inl e \<Longrightarrow> e = ValueError"
  "calc_atm_emissivity d a = Inl e \<Longrightarrow> e = ValueError"
  "calc_weighted_emissivity fc em = Inl e \<Longrightarrow> e = ValueError"
  "calc_LH z f ea es = Inl e \<Longrightarrow> e = ValueError"
  "calc_SH st r z f a s = Inl e \<Longrightarrow> e = ValueError"
  "calc_DLW d we em = Inl e \<Longrightarrow> e = ValueError"
  "calc_ULW s = Inl e \<Longrightarrow> e = ValueError"
  by (auto simp: calc_relative_humidity_def calc_air_saturate_vapor_pressure_def
      calc_snow_saturate_vapor_pressure_def calc_air_vapor_pressure_def calc_air_density_def
      calc_b_eq calc_FU_def calc_exchange_coefficient_def calc_gamma_def calc_R_i_def
      calc_atm_emissivity_def calc_weighted_emissivity_def calc_LH_def calc_SH_eq calc_DLW_def
      calc_ULW_def gops dest!: lift2_err lift1_err)

lemma gtake_err: "gtake g idx = Inl e \<Longrightarrow> e = IndexError"
  by (auto simp: gtake_def split: if_splits)

lemma assign_zeta_err: "assign_zeta G R = Inl e \<Longrightarrow> e = IndexError"
  by (auto simp: assign_zeta_def Let_def dest!: rbind_err gtake_err)

lemma calc_unstable_correction_err:
  "calc_unstable_correction dh w a = Inl e \<Longrightarrow> e = ValueError \<or> e = IndexError"
  by (auto simp: calc_unstable_correction_def dest!: rbind_err calc_errs(9,10) assign_zeta_err)

lemma load_F_c_err: "load_F_c st r = Inl e \<Longrightarrow> e = AttributeError \<or> e = ValueError"
  by (auto simp: load_F_c_def gops split: option.splits dest!: lift2_err)

lemma init_err:
  assumes "init st a s p q w d r = Inl e"
  shows "e = ValueError \<or> e = IndexError \<or> e = AttributeError"
  using assms unfolding init_def
  by (auto dest!: rbind_err calc_errs calc_unstable_correction_err load_F_c_err)

lemma map_sum_rbind: "map_sum id f (rbind x k) = rbind x (\<lambda>v. map_sum id f (k v))"
  by (cases x) simp_all

lemma load_F_c_None: "amr_forest_density st r = None \<Longrightarrow> load_F_c st r = Inl AttributeError"
  by (simp add: load_F_c_def)

lemma init_other_resolution:
  assumes "r \<noteq> 500" "amr_forest_density st r = Some g"
  shows "init st a s p q w d r =
    map_sum id (\<lambda>ev. ev\<lparr>res := r\<rparr>)
      (init (st\<lparr>amr_forest_density := (amr_forest_density st)(30 := Some g)\<rparr>) a s p q w d 30)"
proof -
  let ?st = "st\<lparr>amr_forest_density := (amr_forest_density st)(30 := Some g)\<rparr>"
  have l: "load_F_c ?st 30 = load_F_c st r"
    using assms(2) by (simp add: load_F_c_def)
  have b: "calc_b ?st 30 x = calc_b st r x" for x
    using assms(1) by (simp add: calc_b_def)
  have h: "calc_SH ?st 30 z f a s = calc_SH st r z f a s" for z f
    using assms(1) by (simp add: calc_SH_def)
  show ?thesis
    unfolding init_def l b h by (simp add: map_sum_rbind)
qed

text \<open>
  C5, as amended. The constructor does not check the resolution: for a resolution that is
  neither 500 nor 30 it never raises \<^verbatim>\<open>UnsupportedResolutionError\<close>. It fails, with
  \<^verbatim>\<open>AttributeError\<close> and before any grid is computed, when no canopy raster can be
  opened for the resolution; when one can, it evaluates as it does for resolution 30 (with
  \<^verbatim>\<open>P_A_30\<close>) on that raster, the attribute \<^verbatim>\<open>res\<close> apart.
\<close>

theorem unsupported_resolution:
  assumes "r \<noteq> 500" "r \<noteq> 30"
  shows "(amr_forest_density st r = None \<longrightarrow> init st a s p q w d r = Inl AttributeError) \<and>
    (\<forall>g. amr_forest_density st r = Some g \<longrightarrow>
       init st a s p q w d r =
       map_sum id (\<lambda>ev. ev\<lparr>res := r\<rparr>)
         (init (st\<lparr>amr_forest_density := (amr_forest_density st)(30 := Some g)\<rparr>) a s p q w d 30)) \<and>
    init st a s p q w d r \<noteq> Inl UnsupportedResolutionError"
proof (intro conjI allI impI)
  assume "amr_forest_density st r = None"
  then show "init st a s p q w d r = Inl AttributeError"
    by (simp add: init_def load_F_c_None)
next
  fix g assume "amr_forest_density st r = Some g"
  then show "init st a s p q w d r =
       map_sum id (\<lambda>ev. ev\<lparr>res := r\<rparr>)
         (init (st\<lparr>amr_forest_density := (amr_forest_density st)(30 := Some g)\<rparr>) a s p q w d 30)"
    by (rule init_other_resolution[OF assms(1)])
next
  show "init st a s p q w d r \<noteq> Inl UnsupportedResolutionError"
    using init_err[of st a s p q w d r UnsupportedResolutionError] by auto
qed

theorem unsupported_resolution_witness:
  "init example_statics (uniform 1 1 (Fin 5)) (uniform 1 1 (Fin 0)) (uniform 1 1 (Fin 87000))
        (uniform 1 1 (Fin 0.003)) (uniform 1 1 (Fin 2)) (uniform 1 1 (Fin 250)) 8 = Inl AttributeError \<and>
   init example_statics (uniform 1 1 (Fin 5)) (uniform 1 1 (Fin 0)) (uniform 1 1 (Fin 87000))
        (uniform 1 1 (Fin 0.003)) (uniform 1 1 (Fin 2)) (uniform 1 1 (Fin 250)) 7 =
     map_sum id (\<lambda>ev. ev\<lparr>res := 7\<rparr>)
       (init example_statics (uniform 1 1 (Fin 5)) (uniform 1 1 (Fin 0)) (uniform 1 1 (Fin 87000))
        (uniform 1 1 (Fin 0.003)) (uniform 1 1 (Fin 2)) (uniform 1 1 (Fin 250)) 30) \<and>
   init example_statics (uniform 1 1 (Fin 5)) (uniform 1 1 (Fin 0)) (uniform 1 1 (Fin 87000))
        (uniform 1 1 (Fin 0.003)) (uniform 1 1 (Fin 2)) (uniform 1 1 (Fin 250)) 7
     \<noteq> Inl UnsupportedResolutionError"
proof -
  have s: "example_statics\<lparr>amr_forest_density :=
      (amr_forest_density example_statics)(30 := Some (uniform 1 1 (Fin 0)))\<rparr> = example_statics"
    by (simp add: example_statics_def fun_eq_iff)
  from unsupported_resolution[of 8 example_statics "uniform 1 1 (Fin 5)" "uniform 1 1 (Fin 0)"
      "uniform 1 1 (Fin 87000)" "uniform 1 1 (Fin 0.003)" "uniform 1 1 (Fin 2)" "uniform 1 1 (Fin 250)"]
  have 1: "init example_statics (uniform 1 1 (Fin 5)) (uniform 1 1 (Fin 0)) (uniform 1 1 (Fin 87000))
        (uniform 1 1 (Fin 0.003)) (uniform 1 1 (Fin 2)) (uniform 1 1 (Fin 250)) 8 = Inl AttributeError"
    by simp
  have n: "(7::int) \<noteq> 500" "(7::int) \<noteq> 30" by simp_all
  note t = unsupported_resolution[OF n, of example_statics "uniform 1 1 (Fin 5)" "uniform 1 1 (Fin 0)"
      "uniform 1 1 (Fin 87000)" "uniform 1 1 (Fin 0.003)" "uniform 1 1 (Fin 2)" "uniform 1 1 (Fin 250)"]
  from t example_statics_simps(5)
  have "init example_statics (uniform 1 1 (Fin 5)) (uniform 1 1 (Fin 0)) (uniform 1 1 (Fin 87000))
        (uniform 1 1 (Fin 0.003)) (uniform 1 1 (Fin 2)) (uniform 1 1 (Fin 250)) 7 =
     map_sum id (\<lambda>ev. ev\<lparr>res := 7\<rparr>)
       (init (example_statics\<lparr>amr_forest_density :=
            (amr_forest_density example_statics)(30 := Some (uniform 1 1 (Fin 0)))\<rparr>)
        (uniform 1 1 (Fin 5)) (uniform 1 1 (Fin 0)) (uniform 1 1 (Fin 87000))
        (uniform 1 1 (Fin 0.003)) (uniform 1 1 (Fin 2)) (uniform 1 1 (Fin 250)) 30)"
    by blast
  then have 2: "init example_statics (uniform 1 1 (Fin 5)) (uniform 1 1 (Fin 0)) (uniform 1 1 (Fin 87000))
        (uniform 1 1 (Fin 0.003)) (uniform 1 1 (Fin 2)) (uniform 1 1 (Fin 250)) 7 =
     map_sum id (\<lambda>ev. ev\<lparr>res := 7\<rparr>)
       (init example_statics (uniform 1 1 (Fin 5)) (uniform 1 1 (Fin 0)) (uniform 1 1 (Fin 87000))
        (uniform 1 1 (Fin 0.003)) (uniform 1 1 (Fin 2)) (uniform 1 1 (Fin 250)) 30)"
    unfolding s .
  from t have 3: "init example_statics (uniform 1 1 (Fin 5)) (uniform 1 1 (Fin 0)) (uniform 1 1 (Fin 87000))
        (uniform 1 1 (Fin 0.003)) (uniform 1 1 (Fin 2)) (uniform 1 1 (Fin 250)) 7
     \<noteq> Inl UnsupportedResolutionError"
    by blast
  from 1 2 3 show ?thesis by blast
qed

theorem unsupported_resolution_counterexample:
  "\<not> isl (init example_statics (uniform 1 1 (Fin 5)) (uniform 1 1 (Fin 0)) (uniform 1 1 (Fin 87000))
        (uniform 1 1 (Fin 0.003)) (uniform 1 1 (Fin 2)) (uniform 1 1 (Fin 250)) 7) \<and>
   res (projr (init example_statics (uniform 1 1 (Fin 5)) (uniform 1 1 (Fin 0))
        (uniform 1 1 (Fin 87000)) (uniform 1 1 (Fin 0.003)) (uniform 1 1 (Fin 2))
        (uniform 1 1 (Fin 250)) 7)) = 7"
proof -
  from init_example_total[of 7 "Fin 0" 1 1 "Fin 5" "Fin 0" "Fin 87000" "Fin 0.003" "Fin 2" "Fin 250"]
  obtain ev where ev: "init example_statics (uniform 1 1 (Fin 5)) (uniform 1 1 (Fin 0))
       (uniform 1 1 (Fin 87000)) (uniform 1 1 (Fin 0.003)) (uniform 1 1 (Fin 2))
       (uniform 1 1 (Fin 250)) 7 = Inr ev"
    by auto
  show ?thesis
    unfolding ev using init_fields(7)[OF ev] by simp
qed

lemma sc_lift2:
  "lift2 f (sc c) (arr g) =
     Inr \<lparr>nrows = nrows g, ncols = ncols g,
          cell = (\<lambda>i j. f c (cell g (bidx (nrows g) i) (bidx (ncols g) j)))\<rparr>"
  by (simp add: lift2_def sc_def arr_def broadcast2_def bdim_def)

lemma lift2_incompat:
  assumes "bdim (nrows x) (nrows y) = None \<or> bdim (ncols x) (ncols y) = None"
  shows "lift2 f (Inr x) (Inr y) = Inl ValueError"
  using assms by (auto simp: lift2_def broadcast2_def split: option.splits)

text \<open>
  C6, as amended. The constructor makes no check of the shapes before the computation
  chain and never raises \<^verbatim>\<open>ShapeMismatchError\<close>: the grids are combined by numpy's
  broadcasting. Once the canopy raster is read, an evaluation whose grids all have, along
  each axis, a common length or the length 1 returns; one whose pressure and specific
  humidity grids cannot be broadcast together raises \<^verbatim>\<open>ValueError\<close>, in the first step
  of the chain.
\<close>

theorem shape_mismatch:
  assumes "amr_forest_density st r = Some g"
  shows "(bdim (nrows p) (nrows q) = None \<or> bdim (ncols p) (ncols q) = None \<longrightarrow>
       calc_relative_humidity p q a = Inl ValueError \<and>
       init st a s p q w d r = Inl ValueError) \<and>
    (broadcasts_to g n m \<and> broadcasts_to (P_A_500 st) n m \<and> broadcasts_to (P_A_30 st) n m \<and>
     broadcasts_to a n m \<and> broadcasts_to s n m \<and> broadcasts_to p n m \<and>
     broadcasts_to q n m \<and> broadcasts_to w n m \<and> broadcasts_to d n m \<longrightarrow>
       (\<exists>ev. init st a s p q w d r = Inr ev)) \<and>
    init st a s p q w d r \<noteq> Inl ShapeMismatchError"
proof (intro conjI impI)
  assume pq: "bdim (nrows p) (nrows q) = None \<or> bdim (ncols p) (ncols q) = None"
  have "gmul (gmul (num 0.263) (arr p)) (arr q) = Inl ValueError"
    apply (simp only: gops num_def sc_lift2)
    apply (simp only: arr_def)
    apply (rule lift2_incompat)
    apply (simp add: pq)
    done
  then show rh: "calc_relative_humidity p q a = Inl ValueError"
    by (simp add: calc_relative_humidity_def gops lift2_def)
  from fitsD[OF load_F_c_fits(1)[OF assms, of "nrows g" "ncols g"]]
  obtain fc where "load_F_c st r = Inr fc" by auto
  then show "init st a s p q w d r = Inl ValueError"
    by (simp add: init_def rh)
next
  assume b: "broadcasts_to g n m \<and> broadcasts_to (P_A_500 st) n m \<and> broadcasts_to (P_A_30 st) n m \<and>
     broadcasts_to a n m \<and> broadcasts_to s n m \<and> broadcasts_to p n m \<and>
     broadcasts_to q n m \<and> broadcasts_to w n m \<and> broadcasts_to d n m"
  then show "\<exists>ev. init st a s p q w d r = Inr ev"
    by (intro init_total[OF assms, where n = n and m = m])
       (simp_all add: broadcasts_to_def P_A_of_def)
next
  show "init st a s p q w d r \<noteq> Inl ShapeMismatchError"
    using init_err[of st a s p q w d r ShapeMismatchError] by auto
qed

theorem shape_mismatch_witness:
  "init example_statics (uniform 1 2 (Fin 5)) (uniform 1 2 (Fin 0)) (uniform 1 2 (Fin 87000))
        (uniform 1 3 (Fin 0.003)) (uniform 1 2 (Fin 2)) (uniform 1 2 (Fin 250)) 500 = Inl ValueError \<and>
   (\<exists>ev. init example_statics (uniform 1 2 (Fin 5)) (uniform 1 1 (Fin 0)) (uniform 1 1 (Fin 87000))
        (uniform 1 1 (Fin 0.003)) (uniform 1 1 (Fin 2)) (uniform 1 1 (Fin 250)) 500 = Inr ev) \<and>
   init example_statics (uniform 1 2 (Fin 5)) (uniform 1 1 (Fin 0)) (uniform 1 1 (Fin 87000))
        (uniform 1 1 (Fin 0.003)) (uniform 1 1 (Fin 2)) (uniform 1 1 (Fin 250)) 500
     \<noteq> Inl ShapeMismatchError"
proof -
  have g: "amr_forest_density example_statics 500 = Some (uniform 1 1 (Fin 0))" by simp
  from shape_mismatch[OF g, of "uniform 1 2 (Fin 87000)" "uniform 1 3 (Fin 0.003)"
      "uniform 1 2 (Fin 5)" "uniform 1 2 (Fin 0)" "uniform 1 2 (Fin 2)" "uniform 1 2 (Fin 250)"]
  have 1: "init example_statics (uniform 1 2 (Fin 5)) (uniform 1 2 (Fin 0)) (uniform 1 2 (Fin 87000))
        (uniform 1 3 (Fin 0.003)) (uniform 1 2 (Fin 2)) (uniform 1 2 (Fin 250)) 500 = Inl ValueError"
    by (simp add: bdim_def)
  from shape_mismatch[OF g, of "uniform 1 1 (Fin 87000)" "uniform 1 1 (Fin 0.003)"
      "uniform 1 2 (Fin 5)" "uniform 1 1 (Fin 0)" "uniform 1 1 (Fin 2)" "uniform 1 1 (Fin 250)" 1 2]
  have 2: "\<exists>ev. init example_statics (uniform 1 2 (Fin 5)) (uniform 1 1 (Fin 0)) (uniform 1 1 (Fin 87000))
        (uniform 1 1 (Fin 0.003)) (uniform 1 1 (Fin 2)) (uniform 1 1 (Fin 250)) 500 = Inr ev"
    and 3: "init example_statics (uniform 1 2 (Fin 5)) (uniform 1 1 (Fin 0)) (uniform 1 1 (Fin 87000))
        (uniform 1 1 (Fin 0.003)) (uniform 1 1 (Fin 2)) (uniform 1 1 (Fin 250)) 500
     \<noteq> Inl ShapeMismatchError"
    by (simp_all add: broadcasts_to_def)
  from 1 2 3 show ?thesis by blast
qed

theorem shape_mismatch_counterexample:
  "shape (uniform 1 2 (Fin 5)) \<noteq> shape (uniform 1 1 (Fin 87000)) \<and>
   \<not> isl (init example_statics (uniform 1 2 (Fin 5)) (uniform 1 1 (Fin 0)) (uniform 1 1 (Fin 87000))
        (uniform 1 1 (Fin 0.003)) (uniform 1 1 (Fin 2)) (uniform 1 1 (Fin 250)) 500)"
proof -
  have g: "amr_forest_density example_statics 500 = Some (uniform 1 1 (Fin 0))" by simp
  have "\<exists>ev. init example_statics (uniform 1 2 (Fin 5)) (uniform 1 1 (Fin 0)) (uniform 1 1 (Fin 87000))
        (uniform 1 1 (Fin 0.003)) (uniform 1 1 (Fin 2)) (uniform 1 1 (Fin 250)) 500 = Inr ev"
    by (rule init_total[OF g, where n = 1 and m = 2]) simp_all
  then obtain ev where ev: "init example_statics (uniform 1 2 (Fin 5)) (uniform 1 1 (Fin 0))
        (uniform 1 1 (Fin 87000)) (uniform 1 1 (Fin 0.003)) (uniform 1 1 (Fin 2))
        (uniform 1 1 (Fin 250)) 500 = Inr ev"
    by blast
  show ?thesis unfolding ev by simp
qed

end
